theory Spec2Isabelle
  imports Main "HOL-Library.Word"
begin

section \<open>JavaScript strings\<close>

text \<open>
  A JavaScript string is a sequence of UTF-16 code units. String literals of the source
  are ASCII and written \<open>lit ''...''\<close>.
\<close>

type_synonym jschar = "16 word"
type_synonym jsstring = "jschar list"

definition lit :: "string \<Rightarrow> jsstring" where
  "lit s = map of_char s"

text \<open>ECMAScript \<open>LineTerminator\<close>: LF, CR, LS, PS.\<close>

definition isLineTerminator :: "jschar \<Rightarrow> bool" where
  "isLineTerminator c = (c = 0x000A \<or> c = 0x000D \<or> c = 0x2028 \<or> c = 0x2029)"

text \<open>ECMAScript \<open>WhiteSpace\<close>: TAB, VT, FF, SP, NBSP, ZWNBSP and the category Zs.\<close>

definition isWhiteSpace :: "jschar \<Rightarrow> bool" where
  "isWhiteSpace c =
     (c = 0x0009 \<or> c = 0x000B \<or> c = 0x000C \<or> c = 0x0020 \<or> c = 0x00A0 \<or> c = 0xFEFF \<or>
      c = 0x1680 \<or> (0x2000 \<le> c \<and> c \<le> 0x200A) \<or> c = 0x202F \<or> c = 0x205F \<or>
      c = 0x3000)"

text \<open>What \<open>\s\<close> matches and what \<open>String.prototype.trim\<close> strips.\<close>

definition isSpace :: "jschar \<Rightarrow> bool" where
  "isSpace c = (isWhiteSpace c \<or> isLineTerminator c)"

definition trim :: "jsstring \<Rightarrow> jsstring" where
  "trim s = rev (dropWhile isSpace (rev (dropWhile isSpace s)))"

text \<open>
  Decimal rendering of a non-negative integer, as a template literal renders
  \<open>Date.now()\<close> or an account id.
\<close>

fun show_nat :: "nat \<Rightarrow> jsstring" where
  "show_nat n =
     (if n < 10 then [of_nat (48 + n)] else show_nat (n div 10) @ [of_nat (48 + n mod 10)])"

declare show_nat.simps [simp del]

definition show_int :: "int \<Rightarrow> jsstring" where
  "show_int i = (if i < 0 then lit ''-'' @ show_nat (nat (- i)) else show_nat (nat i))"

section \<open>The two regular expressions of \<open>extractMessageId\<close>\<close>

text \<open>
  A backtracking matcher for the fragment of ECMAScript regular expressions the source
  uses, with the flags \<open>i\<close> (ignore case) and \<open>m\<close> (multiline) built in:
  \<^item> \<open>LineStart\<close> is \<open>^\<close>: the start of the input or the position after a line terminator;
  \<^item> \<open>LineEnd\<close> is \<open>$\<close>: the end of the input or the position before a line terminator;
  \<^item> \<open>One c\<close> matches one code unit of the class \<open>c\<close>, \<open>Star c\<close> is the greedy \<open>c*\<close>;
  \<^item> \<open>GroupOpen\<close> and \<open>GroupClose\<close> delimit capture group 1; \<open>(.+)\<close> is written
    \<open>GroupOpen, One Dot, Star Dot, GroupClose\<close>.
  A class is \<open>\s\<close>, \<open>.\<close> (anything but a line terminator) or a literal character compared
  after canonicalisation. Without the \<open>u\<close> flag, canonicalisation never maps a code unit
  above 127 to one below 128, so only the ASCII letters have two cases here.
\<close>

datatype cclass = WS | Dot | CharI jschar

datatype atom = LineStart | LineEnd | One cclass | Star cclass | GroupOpen | GroupClose

definition canonicalize :: "jschar \<Rightarrow> jschar" where
  "canonicalize c = (if 0x61 \<le> c \<and> c \<le> 0x7A then c - 0x20 else c)"

fun inClass :: "cclass \<Rightarrow> jschar \<Rightarrow> bool" where
  "inClass WS x = isSpace x"
| "inClass Dot x = (\<not> isLineTerminator x)"
| "inClass (CharI c) x = (canonicalize x = canonicalize c)"

text \<open>
  \<open>rmatch re prev s capturing cap\<close> matches \<open>re\<close> at the current position: \<open>prev\<close> is the
  code unit before it (if any), \<open>s\<close> the input from it on, \<open>cap\<close> the text captured so far.
  The result is the text of group 1 of the first match in backtracking order.
\<close>

function (sequential) rmatch :: "atom list \<Rightarrow> jschar option \<Rightarrow> jsstring \<Rightarrow> bool \<Rightarrow> jsstring \<Rightarrow> jsstring option" where
  "rmatch [] prev s capturing cap = Some cap"
| "rmatch (LineStart # re) prev s capturing cap =
     (case prev of
        None \<Rightarrow> rmatch re prev s capturing cap
      | Some p \<Rightarrow> if isLineTerminator p then rmatch re prev s capturing cap else None)"
| "rmatch (LineEnd # re) prev [] capturing cap = rmatch re prev [] capturing cap"
| "rmatch (LineEnd # re) prev (x # xs) capturing cap =
     (if isLineTerminator x then rmatch re prev (x # xs) capturing cap else None)"
| "rmatch (GroupOpen # re) prev s capturing cap = rmatch re prev s True []"
| "rmatch (GroupClose # re) prev s capturing cap = rmatch re prev s False cap"
| "rmatch (One c # re) prev [] capturing cap = None"
| "rmatch (One c # re) prev (x # xs) capturing cap =
     (if inClass c x
      then rmatch re (Some x) xs capturing (if capturing then cap @ [x] else cap)
      else None)"
| "rmatch (Star c # re) prev [] capturing cap = rmatch re prev [] capturing cap"
| "rmatch (Star c # re) prev (x # xs) capturing cap =
     (if inClass c x
      then (case rmatch (Star c # re) (Some x) xs capturing (if capturing then cap @ [x] else cap) of
              Some m \<Rightarrow> Some m
            | None \<Rightarrow> rmatch re prev (x # xs) capturing cap)
      else rmatch re prev (x # xs) capturing cap)"
  by pat_completeness auto
termination
  by (relation "measures [\<lambda>(re, prev, s, capturing, cap). length s,
                          \<lambda>(re, prev, s, capturing, cap). length re]") auto

text \<open>The search of \<open>String.prototype.match\<close>: the first start position that matches.\<close>

fun rsearch :: "atom list \<Rightarrow> jschar option \<Rightarrow> jsstring \<Rightarrow> jsstring option" where
  "rsearch re prev [] = rmatch re prev [] False []"
| "rsearch re prev (x # xs) =
     (case rmatch re prev (x # xs) False [] of
        Some m \<Rightarrow> Some m
      | None \<Rightarrow> rsearch re (Some x) xs)"

definition js_match :: "atom list \<Rightarrow> jsstring \<Rightarrow> jsstring option" where
  "js_match re s = rsearch re None s"

text \<open>\<^verbatim>\<open>/^\s*Message-ID:\s*(.+)$/im\<close> and \<^verbatim>\<open>/^\s*Message-Id:\s*(.+)$/im\<close>.\<close>

definition header_regex :: "string \<Rightarrow> atom list" where
  "header_regex h =
     [LineStart, Star WS] @ map (\<lambda>c. One (CharI c)) (lit h) @
     [Star WS, GroupOpen, One Dot, Star Dot, GroupClose, LineEnd]"

definition re_Message_ID :: "atom list" where
  "re_Message_ID = header_regex ''Message-ID:''"

definition re_Message_Id :: "atom list" where
  "re_Message_Id = header_regex ''Message-Id:''"

section \<open>Message identity resolver (\<open>imapManager.ts\<close>)\<close>

text \<open>
  The object \<open>parseRawEmail\<close> returns has the fields \<open>text\<close>, \<open>html\<close> and \<open>subject\<close>;
  \<open>extractMessageId\<close> takes its argument as \<open>any\<close> and also reads \<open>messageId\<close>, so the
  record has that field too (\<open>None\<close>: the property is absent).
\<close>

record parsedMail =
  p_text :: jsstring
  p_html :: jsstring
  p_subject :: jsstring
  p_messageId :: "jsstring option"

text \<open>
  \<open>`<generated-${Date.now()}-${Math.random()}>`\<close>. The clock is a parameter \<open>now\<close>
  (milliseconds), and so is \<open>rnd\<close>, the text that \<open>Math.random()\<close> renders to.
\<close>

definition synthetic_id :: "nat \<Rightarrow> jsstring \<Rightarrow> jsstring" where
  "synthetic_id now rnd = lit ''<generated-'' @ show_nat now @ lit ''-'' @ rnd @ lit ''>''"

text \<open>\<open>parsed && parsed.messageId\<close>: a present, non-empty string is truthy.\<close>

definition parsed_messageId :: "parsedMail option \<Rightarrow> jsstring option" where
  "parsed_messageId parsed =
     (case parsed of
        None \<Rightarrow> None
      | Some p \<Rightarrow> (case p_messageId p of
                    None \<Rightarrow> None
                  | Some i \<Rightarrow> if i = [] then None else Some i))"

definition extractMessageId :: "nat \<Rightarrow> jsstring \<Rightarrow> parsedMail option \<Rightarrow> jsstring \<Rightarrow> jsstring" where
  "extractMessageId now rnd parsed rawText =
     (case parsed_messageId parsed of
        Some i \<Rightarrow> i
      | None \<Rightarrow>
          (case (case js_match re_Message_ID rawText of
                   Some m \<Rightarrow> Some m
                 | None \<Rightarrow> js_match re_Message_Id rawText) of
             Some m1 \<Rightarrow> if m1 \<noteq> [] then trim m1 else synthetic_id now rnd
           | None \<Rightarrow> synthetic_id now rnd))"

section \<open>Dedup/index gateway (\<open>esClient.ts\<close>)\<close>

text \<open>
  \<open>Buffer.from(messageId)\<close> encodes the string as UTF-8: a surrogate pair is one code point
  of four bytes, a lone surrogate becomes U+FFFD.
\<close>

type_synonym byte = "8 word"

definition isHighSurrogate :: "jschar \<Rightarrow> bool" where
  "isHighSurrogate c = (0xD800 \<le> c \<and> c \<le> 0xDBFF)"

definition isLowSurrogate :: "jschar \<Rightarrow> bool" where
  "isLowSurrogate c = (0xDC00 \<le> c \<and> c \<le> 0xDFFF)"

definition scalar :: "jschar \<Rightarrow> nat" where
  "scalar c = (if isHighSurrogate c \<or> isLowSurrogate c then 0xFFFD else unat c)"

fun code_points :: "jsstring \<Rightarrow> nat list" where
  "code_points [] = []"
| "code_points [c] = [scalar c]"
| "code_points (c # d # ds) =
     (if isHighSurrogate c \<and> isLowSurrogate d
      then (0x10000 + (unat c - 0xD800) * 0x400 + (unat d - 0xDC00)) # code_points ds
      else scalar c # code_points (d # ds))"

definition utf8_of_code_point :: "nat \<Rightarrow> byte list" where
  "utf8_of_code_point u =
     (if u < 0x80 then [of_nat u]
      else if u < 0x800 then [of_nat (0xC0 + u div 0x40), of_nat (0x80 + u mod 0x40)]
      else if u < 0x10000 then
        [of_nat (0xE0 + u div 0x1000), of_nat (0x80 + u div 0x40 mod 0x40),
         of_nat (0x80 + u mod 0x40)]
      else
        [of_nat (0xF0 + u div 0x40000), of_nat (0x80 + u div 0x1000 mod 0x40),
         of_nat (0x80 + u div 0x40 mod 0x40), of_nat (0x80 + u mod 0x40)])"

definition utf8_encode :: "jsstring \<Rightarrow> byte list" where
  "utf8_encode s = concat (map utf8_of_code_point (code_points s))"

text \<open>
  \<open>buf.toString('base64url')\<close>: base64 over the alphabet of RFC 4648, section 5, without
  padding.
\<close>

definition base64url_alphabet :: "jsstring" where
  "base64url_alphabet =
     lit ''ABCDEFGHIJKLMNOPQRSTUVWXYZabcdefghijklmnopqrstuvwxyz0123456789-_''"

definition sextet :: "nat \<Rightarrow> jschar" where
  "sextet i = base64url_alphabet ! (i mod 64)"

fun base64url :: "byte list \<Rightarrow> jsstring" where
  "base64url [] = []"
| "base64url [a] = [sextet (unat a div 4), sextet (unat a mod 4 * 16)]"
| "base64url [a, b] =
     [sextet (unat a div 4), sextet (unat a mod 4 * 16 + unat b div 16),
      sextet (unat b mod 16 * 4)]"
| "base64url (a # b # c # bs) =
     [sextet (unat a div 4), sextet (unat a mod 4 * 16 + unat b div 16),
      sextet (unat b mod 16 * 4 + unat c div 64), sextet (unat c mod 64)] @ base64url bs"

definition encodedMessageId :: "jsstring \<Rightarrow> jsstring" where
  "encodedMessageId messageId = base64url (utf8_encode messageId)"

text \<open>
  The account id is \<open>string | number\<close>; the template literal renders a number in decimal
  (account ids are integers, the key of the account table).
\<close>

datatype account_id = IdString jsstring | IdNumber int

fun id_text :: "account_id \<Rightarrow> jsstring" where
  "id_text (IdString s) = s"
| "id_text (IdNumber n) = show_int n"

text \<open>\<open>messageId || `${Date.now()}-${Math.random()}`\<close>: the empty string is falsy.\<close>

definition placeholder :: "nat \<Rightarrow> jsstring \<Rightarrow> jsstring" where
  "placeholder now rnd = show_nat now @ lit ''-'' @ rnd"

definition docIdFor :: "nat \<Rightarrow> jsstring \<Rightarrow> account_id \<Rightarrow> jsstring \<Rightarrow> jsstring" where
  "docIdFor now rnd accountId messageId =
     (let enc = encodedMessageId (if messageId \<noteq> [] then messageId else placeholder now rnd)
      in id_text accountId @ lit ''_'' @ enc)"

section \<open>Errors, log lines and the calls a worker makes\<close>

text \<open>
  A rejected promise or a thrown exception is a value \<open>Inl err\<close>; every \<open>try\<close>/\<open>catch\<close> of
  the source is a case distinction on such a value. Each \<open>console\<close> line of the source is a
  constructor of \<open>log_entry\<close>.
\<close>

datatype jserror = JsError string

datatype log_entry =
    ErrorCheckingDocExists jserror
  | FailedToIndexEmail jsstring jserror
  | IndexingErrorHistorical jserror
  | ErrorFetchingMailbox jsstring jserror
  | DuplicateMessageSkipped jsstring
  | IndexedNewMessage jsstring int jsstring
  | IndexingErrorNewMessage jserror
  | ErrorFetchingNewMessage jserror
  | WorkerAlreadyRunning int
  | ImapConnected int jsstring
  | CouldNotSubscribe jsstring int jserror
  | CouldNotListMailboxes jserror
  | ImapClientError int jserror
  | ImapClosed int
  | ImapEnded int
  | FailedToConnect int jserror
  | Reconnecting int nat
  | ErrorLoggingOut jserror
  | WorkerStopped int

record emailDoc =
  d_messageId :: jsstring
  d_accountId :: jsstring
  d_folder :: jsstring
  d_from :: jsstring
  d_to :: jsstring
  d_subject :: jsstring
  d_bodyText :: jsstring
  d_bodyHtml :: jsstring
  d_receivedAt :: nat
  d_labels :: "jsstring list"
  d_raw :: jsstring

text \<open>
  What a handler does to the outside world, in order: log lines, commands on its IMAP
  connection, requests to the index, timers. \<open>ImapOpen m ro\<close> is \<open>mailboxOpen\<close> of mailbox
  \<open>m\<close>, read-only when \<open>ro\<close>.
\<close>

datatype action =
    Log log_entry
  | ImapConnect
  | ImapLogout
  | ImapList
  | ImapOpen jsstring bool
  | ImapSearch
  | ImapFetchUids "nat list"
  | ImapFetchSeq int
  | EsExists jsstring
  | EsIndex jsstring emailDoc
  | SetTimeout nat

text \<open>One reading of the clock and of \<open>Math.random()\<close>.\<close>

record clock =
  c_now :: nat
  c_rnd :: jsstring

subsection \<open>\<open>docExists\<close> and \<open>indexEmail\<close>\<close>

text \<open>
  \<open>esExists id\<close> is how \<open>esClient.exists\<close> ends for that id: \<open>Inl err\<close> when the request
  fails, \<open>Inr v\<close> when it resolves to the value \<open>v\<close>. The source reads the answer off the
  property \<open>body\<close> of that value (\<open>const { body } = await ...; return !!body\<close>):
  \<^item> \<open>Wrapped b\<close> is an object with a property \<open>body\<close>, truthy or not (\<open>b\<close>);
  \<^item> \<open>Bare b\<close> is the boolean \<open>b\<close> itself, the way \<open>ensureIndex\<close> reads what
    \<open>esClient.indices.exists\<close> resolves to; it has no property \<open>body\<close>;
  \<^item> \<open>Nullish\<close> is \<open>null\<close> or \<open>undefined\<close>: destructuring it throws, inside the \<open>try\<close>.
\<close>

datatype es_reply = Nullish | Bare bool | Wrapped bool

definition docExists ::
  "clock \<Rightarrow> (jsstring \<Rightarrow> jserror + es_reply) \<Rightarrow> account_id \<Rightarrow> jsstring \<Rightarrow> action list \<times> (jserror + bool)" where
  "docExists clk esExists accountId messageId =
     (let ident = docIdFor (c_now clk) (c_rnd clk) accountId messageId
      in case esExists ident of
           Inl err \<Rightarrow> ([EsExists ident, Log (ErrorCheckingDocExists err)], Inr False)
         | Inr Nullish \<Rightarrow>
             ([EsExists ident, Log (ErrorCheckingDocExists (JsError ''TypeError''))], Inr False)
         | Inr (Bare b) \<Rightarrow> ([EsExists ident], Inr False)
         | Inr (Wrapped b) \<Rightarrow> ([EsExists ident], Inr b))"

text \<open>\<open>esIndex id\<close> is the reply to \<open>esClient.index\<close>: \<open>Some err\<close> when the request fails.\<close>

definition indexEmail ::
  "clock \<Rightarrow> (jsstring \<Rightarrow> jserror option) \<Rightarrow> emailDoc \<Rightarrow> action list \<times> (jserror + unit)" where
  "indexEmail clk esIndex doc =
     (let ident = docIdFor (c_now clk) (c_rnd clk) (IdString (d_accountId doc)) (d_messageId doc)
      in case esIndex ident of
           None \<Rightarrow> ([EsIndex ident doc], Inr ())
         | Some err \<Rightarrow> ([EsIndex ident doc, Log (FailedToIndexEmail ident err)], Inl err))"

section \<open>Parsing (\<open>mailParser.ts\<close>)\<close>

text \<open>
  \<open>simpleParser\<close> belongs to a library: its outcome is an input. A field that is absent
  (or \<open>false\<close>) is \<open>None\<close>. A \<open>Buffer\<close> is given by the text its UTF-8 decoding yields.
\<close>

record simpleParsed =
  sp_text :: "jsstring option"
  sp_textAsHtml :: "jsstring option"
  sp_html :: "jsstring option"
  sp_subject :: "jsstring option"

text \<open>\<open>a || b\<close> on strings, and on a possibly absent string.\<close>

definition or_else :: "jsstring \<Rightarrow> jsstring \<Rightarrow> jsstring" where
  "or_else a b = (if a \<noteq> [] then a else b)"

definition opt_or_else :: "jsstring option \<Rightarrow> jsstring \<Rightarrow> jsstring" where
  "opt_or_else a b = (case a of None \<Rightarrow> b | Some x \<Rightarrow> or_else x b)"

definition rawToText :: "jsstring option \<Rightarrow> jsstring" where
  "rawToText sourceBuffer = (case sourceBuffer of None \<Rightarrow> [] | Some t \<Rightarrow> t)"

definition parseRawEmail :: "(jserror + simpleParsed) \<Rightarrow> jsstring option \<Rightarrow> parsedMail" where
  "parseRawEmail simpleParser raw =
     (case simpleParser of
        Inr parsed \<Rightarrow>
          \<lparr>p_text = opt_or_else (sp_text parsed) (opt_or_else (sp_textAsHtml parsed) []),
           p_html = opt_or_else (sp_html parsed) [],
           p_subject = opt_or_else (sp_subject parsed) [],
           p_messageId = None\<rparr>
      | Inl err \<Rightarrow>
          \<lparr>p_text = (case raw of None \<Rightarrow> [] | Some t \<Rightarrow> t), p_html = [], p_subject = [],
           p_messageId = None\<rparr>)"

section \<open>The message pipeline (\<open>imapManager.ts\<close>)\<close>

record envelope =
  e_from :: "jsstring option list option"
  e_to :: "jsstring option list option"
  e_subject :: "jsstring option"

record fetchedMsg =
  m_source :: "jsstring option"
  m_envelope :: "envelope option"
  m_internalDate :: "nat option"

text \<open>
  The world as one message passes through the pipeline: the outcome of the parser, the
  clock at each place that reads it, and the replies of the index.
\<close>

record world_msg =
  w_parser :: "jserror + simpleParsed"
  w_clock_id :: clock
  w_clock_exists :: clock
  w_esExists :: "jsstring \<Rightarrow> jserror + es_reply"
  w_date :: nat
  w_clock_index :: clock
  w_esIndex :: "jsstring \<Rightarrow> jserror option"

text \<open>\<open>(list || []).map(f => f.address).join(', ')\<close>: an absent address joins as nothing.\<close>

fun js_join :: "jsstring \<Rightarrow> jsstring option list \<Rightarrow> jsstring" where
  "js_join sep [] = []"
| "js_join sep [x] = (case x of None \<Rightarrow> [] | Some t \<Rightarrow> t)"
| "js_join sep (x # y # ys) = (case x of None \<Rightarrow> [] | Some t \<Rightarrow> t) @ sep @ js_join sep (y # ys)"

definition addresses :: "jsstring option list option \<Rightarrow> jsstring" where
  "addresses l = js_join (lit '', '') (case l of None \<Rightarrow> [] | Some xs \<Rightarrow> xs)"

definition resolve_id :: "fetchedMsg \<Rightarrow> world_msg \<Rightarrow> jsstring" where
  "resolve_id msg w =
     extractMessageId (c_now (w_clock_id w)) (c_rnd (w_clock_id w))
       (Some (parseRawEmail (w_parser w) (m_source msg))) (rawToText (m_source msg))"

definition build_doc :: "int \<Rightarrow> jsstring \<Rightarrow> fetchedMsg \<Rightarrow> world_msg \<Rightarrow> emailDoc" where
  "build_doc accountId mailbox msg w =
     (let raw = m_source msg;
          parsed = parseRawEmail (w_parser w) raw;
          rawText = rawToText raw
      in \<lparr>d_messageId = resolve_id msg w,
          d_accountId = show_int accountId,
          d_folder = mailbox,
          d_from = addresses (case m_envelope msg of None \<Rightarrow> None | Some e \<Rightarrow> e_from e),
          d_to = addresses (case m_envelope msg of None \<Rightarrow> None | Some e \<Rightarrow> e_to e),
          d_subject =
            or_else (p_subject parsed)
              (opt_or_else (case m_envelope msg of None \<Rightarrow> None | Some e \<Rightarrow> e_subject e) []),
          d_bodyText = or_else (p_text parsed) rawText,
          d_bodyHtml = or_else (p_html parsed) [],
          d_receivedAt = (case m_internalDate msg of None \<Rightarrow> w_date w | Some d \<Rightarrow> d),
          d_labels = [],
          d_raw = rawText\<rparr>)"

subsection \<open>Backfill of one mailbox\<close>

text \<open>
  The body of the \<open>for await\<close> loop of \<open>fetchLast30DaysForMailbox\<close> on one fetched message:
  the actions it performs and whether it completes (\<open>Inr\<close>) or throws (\<open>Inl\<close>).
\<close>

definition backfill_message ::
  "int \<Rightarrow> jsstring \<Rightarrow> fetchedMsg \<times> world_msg \<Rightarrow> action list \<times> (jserror + unit)" where
  "backfill_message accountId mailbox item =
     (let msg = fst item; w = snd item;
          messageId = resolve_id msg w;
          ex = docExists (w_clock_exists w) (w_esExists w) (IdString (show_int accountId)) messageId
      in case snd ex of
           Inl err \<Rightarrow> (fst ex, Inl err)
         | Inr found \<Rightarrow>
             if found then (fst ex, Inr ())
             else
               (let doc = build_doc accountId mailbox msg w;
                    ix = indexEmail (w_clock_index w) (w_esIndex w) doc
                in case snd ix of
                     Inr u \<Rightarrow> (fst ex @ fst ix, Inr ())
                   | Inl err \<Rightarrow>
                       (fst ex @ fst ix @ [Log (IndexingErrorHistorical err)], Inr ())))"

text \<open>
  \<open>client.fetch\<close> is an asynchronous iterator: it yields messages and may fail after any
  of them. The failure, if any, is \<open>fin\<close>.
\<close>

fun backfill_messages ::
  "int \<Rightarrow> jsstring \<Rightarrow> (fetchedMsg \<times> world_msg) list \<Rightarrow> jserror option \<Rightarrow> action list \<times> (jserror + unit)" where
  "backfill_messages accountId mailbox [] fin =
     ([], case fin of None \<Rightarrow> Inr () | Some err \<Rightarrow> Inl err)"
| "backfill_messages accountId mailbox (item # items) fin =
     (let r = backfill_message accountId mailbox item
      in case snd r of
           Inl err \<Rightarrow> (fst r, Inl err)
         | Inr u \<Rightarrow>
             (let rest = backfill_messages accountId mailbox items fin
              in (fst r @ fst rest, snd rest)))"

text \<open>
  The world during the backfill of one mailbox: the outcome of the read-only open, of the
  search (\<open>None\<close>: a falsy result) and of the fetch. The date of the search (thirty days
  before now) reaches the server only; its results are the input here.
\<close>

record world_backfill =
  b_open :: "jserror option"
  b_search :: "jserror + nat list option"
  b_fetch :: "(fetchedMsg \<times> world_msg) list \<times> jserror option"

definition fetchLast30Days_try :: "world_backfill \<Rightarrow> int \<Rightarrow> jsstring \<Rightarrow> action list \<times> (jserror + unit)" where
  "fetchLast30Days_try world accountId mailbox =
     (case b_open world of
        Some err \<Rightarrow> ([ImapOpen mailbox True], Inl err)
      | None \<Rightarrow>
          (case b_search world of
             Inl err \<Rightarrow> ([ImapOpen mailbox True, ImapSearch], Inl err)
           | Inr None \<Rightarrow> ([ImapOpen mailbox True, ImapSearch], Inr ())
           | Inr (Some uids) \<Rightarrow>
               if uids = [] then ([ImapOpen mailbox True, ImapSearch], Inr ())
               else
                 (let r = backfill_messages accountId mailbox (fst (b_fetch world)) (snd (b_fetch world))
                  in ([ImapOpen mailbox True, ImapSearch, ImapFetchUids uids] @ fst r, snd r))))"

definition fetchLast30DaysForMailbox :: "world_backfill \<Rightarrow> int \<Rightarrow> jsstring \<Rightarrow> action list" where
  "fetchLast30DaysForMailbox world accountId mailbox =
     (let r = fetchLast30Days_try world accountId mailbox
      in case snd r of
           Inr u \<Rightarrow> fst r
         | Inl err \<Rightarrow> fst r @ [Log (ErrorFetchingMailbox mailbox err)])"

subsection \<open>A new message\<close>

text \<open>
  The \<open>exists\<close> listener and \<open>handleNewMessageInMailbox\<close> are asynchronous: a run goes on
  until it waits for the outside world (the server, the parser, the index), and resumes
  when the answer arrives; whatever else is ready runs in between. \<open>listening\<close> is what a
  run of the listener of mailbox \<open>m\<close> waits for:
  \<^item> \<open>Opening m\<close>: \<open>client.mailboxOpen(m)\<close>, called by the listener;
  \<^item> \<open>Fetching m\<close>: the next message of \<open>client.fetch\<close> in \<open>handleNewMessageInMailbox\<close>;
  \<^item> \<open>Parsing m msg\<close>: \<open>simpleParser\<close>, called by \<open>parseRawEmail\<close>;
  \<^item> \<open>Checking m msg parsed messageId\<close>: \<open>esClient.exists\<close>, called by \<open>docExists\<close>;
  \<^item> \<open>Indexing m ident doc\<close>: \<open>esClient.index\<close>, called by \<open>indexEmail\<close>.
\<close>

datatype listening =
    Opening jsstring
  | Fetching jsstring
  | Parsing jsstring fetchedMsg
  | Checking jsstring fetchedMsg parsedMail jsstring
  | Indexing jsstring jsstring emailDoc

text \<open>
  What arrives: the outcome of the open (the field \<open>exists\<close> of the mailbox, \<open>None\<close> when
  absent); the next step of the fetch; the outcome of the parser, with the clock where
  \<open>extractMessageId\<close> and \<open>docIdFor\<close> read it; the reply of the index to the existence
  check, with the date \<open>new Date()\<close> and the clock where \<open>docIdFor\<close> reads it in
  \<open>indexEmail\<close>; the reply to the upsert.
\<close>

datatype fetch_next = NoMore | FetchFailed jserror | Next fetchedMsg

datatype arrival =
    Opened "jserror + int option"
  | Fetched fetch_next
  | Parsed "jserror + simpleParsed" clock clock
  | Replied "jserror + es_reply" nat clock
  | Indexed "jserror option"

text \<open>The document literal of \<open>handleNewMessageInMailbox\<close>.\<close>

definition new_doc :: "int \<Rightarrow> jsstring \<Rightarrow> fetchedMsg \<Rightarrow> parsedMail \<Rightarrow> jsstring \<Rightarrow> nat \<Rightarrow> emailDoc" where
  "new_doc accountId mailbox msg parsed messageId date =
     (let rawText = rawToText (m_source msg)
      in \<lparr>d_messageId = messageId,
          d_accountId = show_int accountId,
          d_folder = mailbox,
          d_from = addresses (case m_envelope msg of None \<Rightarrow> None | Some e \<Rightarrow> e_from e),
          d_to = addresses (case m_envelope msg of None \<Rightarrow> None | Some e \<Rightarrow> e_to e),
          d_subject =
            or_else (p_subject parsed)
              (opt_or_else (case m_envelope msg of None \<Rightarrow> None | Some e \<Rightarrow> e_subject e) []),
          d_bodyText = or_else (p_text parsed) rawText,
          d_bodyHtml = or_else (p_html parsed) [],
          d_receivedAt = (case m_internalDate msg of None \<Rightarrow> date | Some d \<Rightarrow> d),
          d_labels = [],
          d_raw = rawText\<rparr>)"

text \<open>
  The listener, called by \<open>emit\<close>: it calls \<open>client.mailboxOpen(m)\<close> and waits.
\<close>

definition exists_listener :: "jsstring \<Rightarrow> action list \<times> listening" where
  "exists_listener m = ([ImapOpen m False], Opening m)"

text \<open>
  \<open>resume accountId st x\<close>: the run that waits as \<open>st\<close> resumes with \<open>x\<close>; the result is
  what it does up to its next wait, and that wait (\<open>None\<close> when the run has ended). An
  arrival of the wrong kind leaves the run waiting.
\<close>

fun resume :: "int \<Rightarrow> listening \<Rightarrow> arrival \<Rightarrow> action list \<times> listening option" where
  "resume accountId (Opening m) (Opened outcome) =
     (case outcome of
        Inl err \<Rightarrow> ([], None)
      | Inr None \<Rightarrow> ([], None)
      | Inr (Some count) \<Rightarrow>
          if count \<le> 0 then ([], None) else ([ImapFetchSeq count], Some (Fetching m)))"
| "resume accountId (Fetching m) (Fetched nxt) =
     (case nxt of
        NoMore \<Rightarrow> ([], None)
      | FetchFailed err \<Rightarrow> ([Log (ErrorFetchingNewMessage err)], None)
      | Next msg \<Rightarrow> ([], Some (Parsing m msg)))"
| "resume accountId (Parsing m msg) (Parsed simpleParser clk_id clk_exists) =
     (let parsed = parseRawEmail simpleParser (m_source msg);
          rawText = rawToText (m_source msg);
          messageId = extractMessageId (c_now clk_id) (c_rnd clk_id) (Some parsed) rawText;
          ident = docIdFor (c_now clk_exists) (c_rnd clk_exists) (IdString (show_int accountId))
                    messageId
      in ([EsExists ident], Some (Checking m msg parsed messageId)))"
| "resume accountId (Checking m msg parsed messageId) (Replied reply date clk_index) =
     (let found = (case reply of Inr (Wrapped b) \<Rightarrow> b | _ \<Rightarrow> False);
          logged = (case reply of
                      Inl err \<Rightarrow> [Log (ErrorCheckingDocExists err)]
                    | Inr Nullish \<Rightarrow> [Log (ErrorCheckingDocExists (JsError ''TypeError''))]
                    | _ \<Rightarrow> [])
      in if found then (logged @ [Log (DuplicateMessageSkipped messageId)], None)
         else
           (let doc = new_doc accountId m msg parsed messageId date;
                ident = docIdFor (c_now clk_index) (c_rnd clk_index) (IdString (d_accountId doc))
                          (d_messageId doc)
            in (logged @ [EsIndex ident doc], Some (Indexing m ident doc))))"
| "resume accountId (Indexing m ident doc) (Indexed outcome) =
     (case outcome of
        None \<Rightarrow> ([Log (IndexedNewMessage (d_messageId doc) accountId m)], Some (Fetching m))
      | Some err \<Rightarrow>
          ([Log (FailedToIndexEmail ident err), Log (IndexingErrorNewMessage err)],
           Some (Fetching m)))"
| "resume accountId st x = ([], Some st)"

section \<open>Mailbox enumeration\<close>

text \<open>
  What \<open>listMailboxes\<close> returns is read as a tree: a node may have a name and children.
  \<open>NoBox\<close> is a null node; an absent name is \<open>None\<close>, absent children are \<open>[]\<close> (either
  way \<open>forEach\<close> calls nothing). \<open>recurse\<close> pushes onto the array \<open>mailboxNames\<close>, which
  is passed through here.
\<close>

datatype box = NoBox | Box "jsstring option" "box list"

definition push_name :: "jsstring option \<Rightarrow> jsstring list \<Rightarrow> jsstring list" where
  "push_name name mailboxNames =
     (case name of
        None \<Rightarrow> mailboxNames
      | Some n \<Rightarrow> if n \<noteq> [] then mailboxNames @ [n] else mailboxNames)"

fun recurse :: "box \<Rightarrow> jsstring list \<Rightarrow> jsstring list" where
  "recurse NoBox mailboxNames = mailboxNames"
| "recurse (Box name children) mailboxNames = fold recurse children (push_name name mailboxNames)"

text \<open>
  The sequence in the words of the specification: pre-order, the name of a node, then the
  sequences of its children in their listed order.
\<close>

fun preorder :: "box \<Rightarrow> jsstring list" where
  "preorder NoBox = []"
| "preorder (Box name children) = push_name name [] @ concat (map preorder children)"

section \<open>The account worker\<close>

record accountRow =
  a_id :: int
  a_name :: jsstring
  a_host :: jsstring
  a_port :: int
  a_secure :: bool
  a_username :: jsstring
  a_password :: jsstring
  a_enabled :: bool

text \<open>
  The \<open>ImapFlow\<close> instance of a worker: its options and the listeners registered on it.
  Every \<open>exists\<close> listener is the same closure but for the mailbox \<open>m\<close> it captured, so the
  list of these mailboxes, in order of registration, stands for the listeners. The
  \<open>error\<close>, \<open>close\<close> and \<open>end\<close> listeners capture nothing of their own: their number is kept.
\<close>

record imapClient =
  c_host :: jsstring
  c_port :: int
  c_secure :: bool
  c_user :: jsstring
  c_pass :: jsstring
  on_exists :: "jsstring list"
  on_error :: nat
  on_close :: nat
  on_end :: nat

text \<open>\<open>shuttingDown\<close> is an optional field: absent reads as false.\<close>

record worker =
  client :: imapClient
  account :: accountRow
  connected :: bool
  reconnectAttempts :: nat
  shuttingDown :: bool

subsection \<open>\<open>retryConnect\<close> and \<open>connectAndListen\<close>\<close>

text \<open>
  Each function below is one run of a piece of the source between two points where it
  waits: it takes the worker, and returns the worker and the actions performed.
\<close>

definition retryConnect :: "worker \<Rightarrow> worker \<times> action list" where
  "retryConnect w =
     (if shuttingDown w then (w, [])
      else
        (let n = reconnectAttempts w + 1;
             delay = min 30000 (1000 * 2 ^ n)
         in (w\<lparr>reconnectAttempts := n\<rparr>,
             [Log (Reconnecting (a_id (account w)) delay), SetTimeout delay])))"

text \<open>\<open>connectAndListen\<close> up to \<open>await client.connect()\<close>.\<close>

definition connectAndListen_call :: "worker \<Rightarrow> worker \<times> action list" where
  "connectAndListen_call w = (if shuttingDown w then (w, []) else (w, [ImapConnect]))"

text \<open>The callback given to \<open>setTimeout\<close>.\<close>

definition timer_callback :: "worker \<Rightarrow> worker \<times> action list" where
  "timer_callback w = (if \<not> shuttingDown w then connectAndListen_call w else (w, []))"

text \<open>\<open>connectAndListen\<close> from the \<open>catch\<close> on, when \<open>client.connect()\<close> fails.\<close>

definition connect_rejected :: "jserror \<Rightarrow> worker \<Rightarrow> worker \<times> action list" where
  "connect_rejected err w =
     (let r = retryConnect (w\<lparr>connected := False\<rparr>)
      in (fst r, Log (FailedToConnect (a_id (account w)) err) # snd r))"

text \<open>
  The world while a connected worker enumerates: the outcome of \<open>listMailboxes\<close>, and for
  the \<open>i\<close>-th mailbox of the sequence the world of its backfill and the outcome of the
  read-write open.
\<close>

record world_mailbox =
  mb_backfill :: world_backfill
  mb_open_rw :: "jserror option"

record world_connect =
  wc_list :: "jserror + box"
  wc_mailbox :: "nat \<Rightarrow> world_mailbox"

definition add_exists_listener :: "jsstring \<Rightarrow> worker \<Rightarrow> worker" where
  "add_exists_listener m w = w\<lparr>client := (client w)\<lparr>on_exists := on_exists (client w) @ [m]\<rparr>\<rparr>"

text \<open>The loop \<open>for (const m of mailboxNames)\<close>, from the \<open>i\<close>-th mailbox on.\<close>

fun subscribe_mailboxes ::
  "(nat \<Rightarrow> world_mailbox) \<Rightarrow> nat \<Rightarrow> jsstring list \<Rightarrow> worker \<Rightarrow> worker \<times> action list" where
  "subscribe_mailboxes world i [] w = (w, [])"
| "subscribe_mailboxes world i (m # ms) w =
     (let acts1 = fetchLast30DaysForMailbox (mb_backfill (world i)) (a_id (account w)) m;
          r = (case mb_open_rw (world i) of
                 None \<Rightarrow> (add_exists_listener m w, [ImapOpen m False])
               | Some err \<Rightarrow>
                   (w, [ImapOpen m False, Log (CouldNotSubscribe m (a_id (account w)) err)]));
          rest = subscribe_mailboxes world (Suc i) ms (fst r)
      in (fst rest, acts1 @ snd r @ snd rest))"

definition enumerate_mailboxes :: "world_connect \<Rightarrow> worker \<Rightarrow> worker \<times> action list" where
  "enumerate_mailboxes world w =
     (case wc_list world of
        Inl err \<Rightarrow> (w, [ImapList, Log (CouldNotListMailboxes err)])
      | Inr boxes \<Rightarrow>
          (let mailboxNames = recurse boxes [];
               r = subscribe_mailboxes (wc_mailbox world) 0 mailboxNames w
           in (fst r, ImapList # snd r)))"

definition add_connection_listeners :: "worker \<Rightarrow> worker" where
  "add_connection_listeners w =
     w\<lparr>client := (client w)\<lparr>on_error := Suc (on_error (client w)),
                             on_close := Suc (on_close (client w)),
                             on_end := Suc (on_end (client w))\<rparr>\<rparr>"

text \<open>\<open>connectAndListen\<close> after \<open>client.connect()\<close> has succeeded.\<close>

definition connect_resolved :: "world_connect \<Rightarrow> worker \<Rightarrow> worker \<times> action list" where
  "connect_resolved world w =
     (let w1 = w\<lparr>connected := True, reconnectAttempts := 0\<rparr>;
          r = enumerate_mailboxes world w1
      in (add_connection_listeners (fst r),
          Log (ImapConnected (a_id (account w)) (a_name (account w))) # snd r))"

definition connect_settled :: "jserror + world_connect \<Rightarrow> worker \<Rightarrow> worker \<times> action list" where
  "connect_settled outcome w =
     (case outcome of Inl err \<Rightarrow> connect_rejected err w | Inr world \<Rightarrow> connect_resolved world w)"

text \<open>
  A whole run of \<open>connectAndListen\<close>, when nothing else happens to the worker while it
  waits for \<open>client.connect()\<close>; \<open>outcome\<close> is how that call ends.
\<close>

definition connectAndListen :: "jserror + world_connect \<Rightarrow> worker \<Rightarrow> worker \<times> action list" where
  "connectAndListen outcome w =
     (if shuttingDown w then (w, [])
      else (let r = connect_settled outcome w in (fst r, ImapConnect # snd r)))"

subsection \<open>Listeners\<close>

definition error_listener :: "jserror \<Rightarrow> worker \<Rightarrow> worker \<times> action list" where
  "error_listener err w = (w, [Log (ImapClientError (a_id (account w)) err)])"

definition close_listener :: "worker \<Rightarrow> worker \<times> action list" where
  "close_listener w =
     (let w1 = w\<lparr>connected := False\<rparr>
      in if \<not> shuttingDown w1
         then (let r = retryConnect w1 in (fst r, Log (ImapClosed (a_id (account w))) # snd r))
         else (w1, [Log (ImapClosed (a_id (account w)))]))"

definition end_listener :: "worker \<Rightarrow> worker \<times> action list" where
  "end_listener w =
     (let w1 = w\<lparr>connected := False\<rparr>
      in if \<not> shuttingDown w1
         then (let r = retryConnect w1 in (fst r, Log (ImapEnded (a_id (account w))) # snd r))
         else (w1, [Log (ImapEnded (a_id (account w)))]))"

text \<open>
  \<open>emit\<close> calls every listener registered for the event, in order of registration. The
  \<open>error\<close>, \<open>close\<close> and \<open>end\<close> listeners never wait: each runs to its end.
\<close>

fun emit_n :: "nat \<Rightarrow> (worker \<Rightarrow> worker \<times> action list) \<Rightarrow> worker \<Rightarrow> worker \<times> action list" where
  "emit_n 0 listener w = (w, [])"
| "emit_n (Suc n) listener w =
     (let r = listener w; rest = emit_n n listener (fst r) in (fst rest, snd r @ snd rest))"

definition emit_error :: "jserror \<Rightarrow> worker \<Rightarrow> worker \<times> action list" where
  "emit_error err w = emit_n (on_error (client w)) (error_listener err) w"

definition emit_close :: "worker \<Rightarrow> worker \<times> action list" where
  "emit_close w = emit_n (on_close (client w)) close_listener w"

definition emit_end :: "worker \<Rightarrow> worker \<times> action list" where
  "emit_end w = emit_n (on_end (client w)) end_listener w"

section \<open>The worker registry and the event loop\<close>

text \<open>
  \<open>workers\<close> is a \<open>Map<number, Worker>\<close>: here the list of its entries in insertion
  order, with the operations of \<open>Map\<close>. A worker is an object that the registry, the
  listeners and the timer callbacks all refer to: the objects live in \<open>heap\<close>, and a
  reference is an index into it.
\<close>

fun Map_has :: "(int \<times> nat) list \<Rightarrow> int \<Rightarrow> bool" where
  "Map_has [] k = False"
| "Map_has (e # es) k = (fst e = k \<or> Map_has es k)"

fun Map_get :: "(int \<times> nat) list \<Rightarrow> int \<Rightarrow> nat option" where
  "Map_get [] k = None"
| "Map_get (e # es) k = (if fst e = k then Some (snd e) else Map_get es k)"

fun Map_set :: "(int \<times> nat) list \<Rightarrow> int \<Rightarrow> nat \<Rightarrow> (int \<times> nat) list" where
  "Map_set [] k v = [(k, v)]"
| "Map_set (e # es) k v = (if fst e = k then (k, v) # es else e # Map_set es k v)"

fun Map_delete :: "(int \<times> nat) list \<Rightarrow> int \<Rightarrow> (int \<times> nat) list" where
  "Map_delete [] k = []"
| "Map_delete (e # es) k = (if fst e = k then Map_delete es k else e # Map_delete es k)"

text \<open>
  An entry of the trace: an action of the worker at an address, or a log line of the
  registry functions.
\<close>

datatype entry = Worker_did nat action | Registry_logged log_entry

text \<open>
  \<open>timers\<close> are the pending \<open>setTimeout\<close> callbacks (the worker each belongs to, and its
  delay), \<open>connecting\<close> the pending calls of \<open>client.connect()\<close> (by worker), \<open>stopping\<close>
  the calls of \<open>stopWorkerForAccount\<close> that wait for \<open>logout\<close> (by account id) and
  \<open>waiting\<close> the runs of \<open>exists\<close> listeners that wait (the worker, and what the run waits
  for).
\<close>

record system =
  heap :: "worker list"
  workers :: "(int \<times> nat) list"
  timers :: "(nat \<times> nat) list"
  connecting :: "nat list"
  stopping :: "int list"
  waiting :: "(nat \<times> listening) list"
  trace :: "entry list"

definition initial :: system where
  "initial =
     \<lparr>heap = [], workers = [], timers = [], connecting = [], stopping = [], waiting = [],
      trace = []\<rparr>"

fun scheduled :: "action list \<Rightarrow> nat list" where
  "scheduled [] = []"
| "scheduled (SetTimeout d # acts) = d # scheduled acts"
| "scheduled (act # acts) = scheduled acts"

fun connects :: "action list \<Rightarrow> nat" where
  "connects [] = 0"
| "connects (ImapConnect # acts) = Suc (connects acts)"
| "connects (act # acts) = connects acts"

text \<open>
  Runs a piece of a worker's code on the worker at address \<open>a\<close>: the object is updated in
  place, the timers it set and the connects it started become pending.
\<close>

definition run_on :: "nat \<Rightarrow> (worker \<Rightarrow> worker \<times> action list) \<Rightarrow> system \<Rightarrow> system" where
  "run_on a f sys =
     (let r = f (heap sys ! a)
      in sys\<lparr>heap := (heap sys)[a := fst r],
              timers := timers sys @ map (\<lambda>d. (a, d)) (scheduled (snd r)),
              connecting := connecting sys @ replicate (connects (snd r)) a,
              trace := trace sys @ map (Worker_did a) (snd r)\<rparr>)"

subsection \<open>\<open>startWorkerForAccount\<close>\<close>

text \<open>
  The master key and \<open>decryptString\<close> under it are inputs: \<open>decryptString\<close> is AES-256-GCM
  of the \<open>crypto\<close> library.
\<close>

datatype crypto_env = NoMasterKey | MasterKey "jsstring \<Rightarrow> jserror + jsstring"

definition passwordPlain :: "crypto_env \<Rightarrow> jsstring \<Rightarrow> jsstring" where
  "passwordPlain env stored =
     (case env of
        NoMasterKey \<Rightarrow> stored
      | MasterKey decryptString \<Rightarrow>
          (case decryptString stored of Inr plain \<Rightarrow> plain | Inl err \<Rightarrow> stored))"

definition new_worker :: "crypto_env \<Rightarrow> accountRow \<Rightarrow> worker" where
  "new_worker env acc =
     \<lparr>client = \<lparr>c_host = a_host acc, c_port = a_port acc, c_secure = a_secure acc,
                c_user = a_username acc, c_pass = passwordPlain env (a_password acc),
                on_exists = [], on_error = 0, on_close = 0, on_end = 0\<rparr>,
      account = acc, connected = False, reconnectAttempts = 0, shuttingDown = False\<rparr>"

text \<open>The call of \<open>startWorkerForAccount\<close>: it runs up to \<open>await client.connect()\<close>.\<close>

definition startWorkerForAccount :: "crypto_env \<Rightarrow> accountRow \<Rightarrow> system \<Rightarrow> system" where
  "startWorkerForAccount env acc sys =
     (if Map_has (workers sys) (a_id acc)
      then sys\<lparr>trace := trace sys @ [Registry_logged (WorkerAlreadyRunning (a_id acc))]\<rparr>
      else
        (let addr = length (heap sys)
         in run_on addr connectAndListen_call
              (sys\<lparr>heap := heap sys @ [new_worker env acc],
                    workers := Map_set (workers sys) (a_id acc) addr\<rparr>)))"

subsection \<open>\<open>stopWorkerForAccount\<close>\<close>

text \<open>The call, up to \<open>await w.client.logout()\<close>.\<close>

definition stop_called :: "int \<Rightarrow> system \<Rightarrow> system" where
  "stop_called accountId sys =
     (case Map_get (workers sys) accountId of
        None \<Rightarrow> sys
      | Some addr \<Rightarrow>
          sys\<lparr>heap := (heap sys)[addr := (heap sys ! addr)\<lparr>shuttingDown := True\<rparr>],
                stopping := stopping sys @ [accountId],
                trace := trace sys @ [Worker_did addr ImapLogout]\<rparr>)"

text \<open>The rest, once \<open>logout\<close> has ended (\<open>Some err\<close>: it failed).\<close>

definition stop_settled :: "jserror option \<Rightarrow> int \<Rightarrow> system \<Rightarrow> system" where
  "stop_settled outcome accountId sys =
     sys\<lparr>workers := Map_delete (workers sys) accountId,
           trace := trace sys @
             (case outcome of None \<Rightarrow> [] | Some err \<Rightarrow> [Registry_logged (ErrorLoggingOut err)]) @
             [Registry_logged (WorkerStopped accountId)]\<rparr>"

text \<open>A whole call of \<open>stopWorkerForAccount\<close>, when nothing else happens during \<open>logout\<close>.\<close>

definition stopWorkerForAccount :: "jserror option \<Rightarrow> int \<Rightarrow> system \<Rightarrow> system" where
  "stopWorkerForAccount outcome accountId sys =
     (case Map_get (workers sys) accountId of
        None \<Rightarrow> sys
      | Some addr \<Rightarrow>
          (let sys1 = stop_called accountId sys
           in stop_settled outcome accountId (sys1\<lparr>stopping := butlast (stopping sys1)\<rparr>)))"

subsection \<open>Events\<close>

definition remove_at :: "nat \<Rightarrow> 'a list \<Rightarrow> 'a list" where
  "remove_at i xs = take i xs @ drop (Suc i) xs"

text \<open>
  \<open>emit('exists')\<close> on the client of the worker at address \<open>a\<close>: every listener is called,
  in order of registration, and each runs up to its first wait. So every listener has
  called \<open>mailboxOpen\<close> before any of them goes on.
\<close>

definition emit_exists :: "nat \<Rightarrow> system \<Rightarrow> system" where
  "emit_exists a sys =
     (let runs = map exists_listener (on_exists (client (heap sys ! a)))
      in sys\<lparr>waiting := waiting sys @ map (\<lambda>r. (a, snd r)) runs,
              trace := trace sys @ map (Worker_did a) (concat (map fst runs))\<rparr>)"

text \<open>
  The \<open>i\<close>-th waiting run of a listener resumes. The account is the one the listener
  captured, that of its worker.
\<close>

definition arrive :: "nat \<Rightarrow> arrival \<Rightarrow> system \<Rightarrow> system" where
  "arrive i x sys =
     (let a = fst (waiting sys ! i);
          r = resume (a_id (account (heap sys ! a))) (snd (waiting sys ! i)) x
      in sys\<lparr>waiting :=
                (case snd r of
                   None \<Rightarrow> remove_at i (waiting sys)
                 | Some st \<Rightarrow> (waiting sys)[i := (a, st)]),
              trace := trace sys @ map (Worker_did a) (fst r)\<rparr>)"

text \<open>
  What can happen next: a call of the control plane, the end of a pending call, a timer
  that fires, an event of a worker's connection, an arrival for a waiting run of a
  listener. The number in \<open>LogoutSettled\<close>, \<open>ConnectSettled\<close>, \<open>TimerFired\<close> and \<open>Arrived\<close>
  picks one of the pending ones.
\<close>

datatype event =
    Start crypto_env accountRow
  | StopCalled int
  | LogoutSettled nat "jserror option"
  | ConnectSettled nat "jserror + world_connect"
  | TimerFired nat
  | EmitError nat jserror
  | EmitClose nat
  | EmitEnd nat
  | EmitExists nat
  | Arrived nat arrival

fun step :: "event \<Rightarrow> system \<Rightarrow> system" where
  "step (Start env acc) sys = startWorkerForAccount env acc sys"
| "step (StopCalled accountId) sys = stop_called accountId sys"
| "step (LogoutSettled i outcome) sys =
     (if i < length (stopping sys)
      then stop_settled outcome (stopping sys ! i) (sys\<lparr>stopping := remove_at i (stopping sys)\<rparr>)
      else sys)"
| "step (ConnectSettled i outcome) sys =
     (if i < length (connecting sys)
      then run_on (connecting sys ! i) (connect_settled outcome)
             (sys\<lparr>connecting := remove_at i (connecting sys)\<rparr>)
      else sys)"
| "step (TimerFired i) sys =
     (if i < length (timers sys)
      then run_on (fst (timers sys ! i)) timer_callback (sys\<lparr>timers := remove_at i (timers sys)\<rparr>)
      else sys)"
| "step (EmitError a err) sys = (if a < length (heap sys) then run_on a (emit_error err) sys else sys)"
| "step (EmitClose a) sys = (if a < length (heap sys) then run_on a emit_close sys else sys)"
| "step (EmitEnd a) sys = (if a < length (heap sys) then run_on a emit_end sys else sys)"
| "step (EmitExists a) sys = (if a < length (heap sys) then emit_exists a sys else sys)"
| "step (Arrived i x) sys = (if i < length (waiting sys) then arrive i x sys else sys)"

definition run :: "event list \<Rightarrow> system \<Rightarrow> system" where
  "run es sys = fold step es sys"

text \<open>The actions that attempt or schedule a (re)connect.\<close>

fun is_reconnect :: "action \<Rightarrow> bool" where
  "is_reconnect ImapConnect = True"
| "is_reconnect (SetTimeout d) = True"
| "is_reconnect act = False"

fun reconnect_of :: "nat \<Rightarrow> entry \<Rightarrow> bool" where
  "reconnect_of a (Worker_did b act) = (b = a \<and> is_reconnect act)"
| "reconnect_of a (Registry_logged l) = False"

section \<open>Notions used in the statements\<close>

text \<open>A list of actions without any that attempts or schedules a reconnect.\<close>

abbreviation calm :: "action list \<Rightarrow> bool" where
  "calm acts \<equiv> list_all (\<lambda>act. \<not> is_reconnect act) acts"

text \<open>The worker at address \<open>a\<close> exists and is shutting down.\<close>

definition stopped :: "nat \<Rightarrow> system \<Rightarrow> bool" where
  "stopped a sys = (a < length (heap sys) \<and> shuttingDown (heap sys ! a))"

text \<open>
  Of the mailboxes \<open>ms\<close>, visited from position \<open>i\<close> on, those whose read-write open
  succeeds.
\<close>

definition subscribed :: "(nat \<Rightarrow> world_mailbox) \<Rightarrow> nat \<Rightarrow> jsstring list \<Rightarrow> jsstring list" where
  "subscribed world i ms =
     map snd (filter (\<lambda>p. mb_open_rw (world (fst p)) = None) (List.enumerate i ms))"

text \<open>The sequence of mailbox names a connected worker goes through.\<close>

definition enumerated :: "world_connect \<Rightarrow> jsstring list" where
  "enumerated world = (case wc_list world of Inl err \<Rightarrow> [] | Inr boxes \<Rightarrow> recurse boxes [])"

text \<open>The ids of the upserts requested, in order.\<close>

fun upserts :: "action list \<Rightarrow> jsstring list" where
  "upserts [] = []"
| "upserts (EsIndex ident doc # acts) = ident # upserts acts"
| "upserts (act # acts) = upserts acts"

text \<open>
  What the worker does at one mailbox of the sequence: the backfill, the read-write open,
  and the log line when that open fails.
\<close>

definition at_mailbox :: "(nat \<Rightarrow> world_mailbox) \<Rightarrow> int \<Rightarrow> nat \<times> jsstring \<Rightarrow> action list" where
  "at_mailbox world accountId p =
     fetchLast30DaysForMailbox (mb_backfill (world (fst p))) accountId (snd p) @
     ImapOpen (snd p) False #
     (case mb_open_rw (world (fst p)) of
        None \<Rightarrow> []
      | Some err \<Rightarrow> [Log (CouldNotSubscribe (snd p) accountId err)])"




text \<open>
  For the proofs: the delays that go with a counter value, and the invariant of the event
  loop that ties the trace to the counters (every pending timer and connect belongs to a
  worker of the heap).
\<close>

definition backoff :: "nat \<Rightarrow> nat list" where
  "backoff c = map (\<lambda>k. min 30000 (1000 * 2 ^ k)) [1..<Suc c]"


section \<open>Example inputs\<close>

definition ex_account :: accountRow where
  "ex_account =
     \<lparr>a_id = 7, a_name = lit ''work'', a_host = lit ''imap.example.org'', a_port = 993,
      a_secure = True, a_username = lit ''ann'', a_password = lit ''secret'', a_enabled = True\<rparr>"

definition ex_worker :: worker where
  "ex_worker = new_worker NoMasterKey ex_account"

definition ex_no_mail :: world_backfill where
  "ex_no_mail = \<lparr>b_open = None, b_search = Inr (Some []), b_fetch = ([], None)\<rparr>"


text \<open>One worker whose first connection attempt was refused: a retry is pending.\<close>

definition ex_refused :: system where
  "ex_refused =
     run [Start NoMasterKey ex_account, ConnectSettled 0 (Inl (JsError ''refused''))] initial"

text \<open>
  Two fetched messages: the upsert of the first fails, that of the second succeeds. A
  backfill in which the search fails. A listing of two mailboxes; a world in which the
  search fails in the first, and one in which the first cannot be opened read-write.
\<close>

definition ex_msg :: "string \<Rightarrow> fetchedMsg" where
  "ex_msg mid =
     \<lparr>m_source = Some (lit ''Message-ID: '' @ lit mid), m_envelope = None,
      m_internalDate = Some 1700000000000\<rparr>"

definition ex_world_msg :: "bool \<Rightarrow> world_msg" where
  "ex_world_msg index_up =
     \<lparr>w_parser = Inl (JsError ''parse''),
      w_clock_id = \<lparr>c_now = 1, c_rnd = lit ''0.1''\<rparr>,
      w_clock_exists = \<lparr>c_now = 2, c_rnd = lit ''0.2''\<rparr>,
      w_esExists = (\<lambda>i. Inr (Wrapped False)),
      w_date = 3,
      w_clock_index = \<lparr>c_now = 4, c_rnd = lit ''0.4''\<rparr>,
      w_esIndex = (\<lambda>i. if index_up then None else Some (JsError ''index down''))\<rparr>"

definition ex_backfill :: world_backfill where
  "ex_backfill =
     \<lparr>b_open = None, b_search = Inr (Some [11, 12]),
      b_fetch = ([(ex_msg ''<1@x>'', ex_world_msg False), (ex_msg ''<2@x>'', ex_world_msg True)], None)\<rparr>"

definition ex_search_fails :: world_backfill where
  "ex_search_fails = \<lparr>b_open = None, b_search = Inl (JsError ''search failed''), b_fetch = ([], None)\<rparr>"

definition ex_boxes :: box where
  "ex_boxes = Box None [Box (Some (lit ''INBOX'')) [], Box (Some (lit ''Sent'')) []]"

definition ex_world_search_fails :: world_connect where
  "ex_world_search_fails =
     \<lparr>wc_list = Inr ex_boxes,
      wc_mailbox = (\<lambda>i. \<lparr>mb_backfill = (if i = 0 then ex_search_fails else ex_no_mail),
                          mb_open_rw = None\<rparr>)\<rparr>"

definition ex_world_locked :: world_connect where
  "ex_world_locked =
     \<lparr>wc_list = Inr ex_boxes,
      wc_mailbox = (\<lambda>i. \<lparr>mb_backfill = ex_no_mail,
                          mb_open_rw = (if i = 0 then Some (JsError ''read-only'') else None)\<rparr>)\<rparr>"





section \<open>Message identity\<close>

text \<open>
  C4. The resolver is to return a non-empty identifier for every input. It does not: for a
  raw text whose \<open>Message-ID:\<close> header has a value of white space only, the regular
  expression captures that white space (\<open>\s*\<close> gives back one character so that \<open>.+\<close> can
  match), the test \<open>m[1]\<close> finds a non-empty string, and \<open>trim\<close> then returns the empty
  string. Below: the header alone, the header as the last line of a message, and the same
  through \<open>resolve_id\<close>, the way both pipelines call the resolver.
\<close>

theorem extractMessageId_blank_header:
  "extractMessageId now rnd None (lit ''Message-ID: '') = [] \<and>
   extractMessageId now rnd None (lit ''Subject: hi'' @ [0x0D, 0x0A] @ lit ''Message-ID: '' @ [0x0D, 0x0A]) = [] \<and>
   resolve_id \<lparr>m_source = Some (lit ''Message-ID: ''), m_envelope = None, m_internalDate = None\<rparr> w = []"
  by (simp add: resolve_id_def rawToText_def parseRawEmail_def extractMessageId_def
      parsed_messageId_def js_match_def re_Message_ID_def header_regex_def lit_def
      canonicalize_def isSpace_def isWhiteSpace_def isLineTerminator_def trim_def
      split: sum.splits)

section \<open>Document identity\<close>

lemma placeholder_not_empty: "placeholder now rnd \<noteq> []"
  by (simp add: placeholder_def lit_def)

lemma sextet_safe: "sextet i \<in> set base64url_alphabet"
  unfolding sextet_def by (rule nth_mem) (simp add: base64url_alphabet_def lit_def)

lemma base64url_safe: "set (base64url bytes) \<subseteq> set base64url_alphabet"
  by (induction bytes rule: base64url.induct) (simp_all add: sextet_safe)

text \<open>
  C5. For a non-empty \<open>messageId\<close>, \<open>docIdFor\<close> is the account id, an underscore and the
  URL-safe base64 encoding of the UTF-8 bytes of \<open>messageId\<close>; the clock and the random
  number play no part, so two calls with the same inputs agree. For the empty
  \<open>messageId\<close> the placeholder (time stamp, a dash, the random number) is encoded in its
  place, and the placeholder is never empty. The encoding uses the URL-safe alphabet only.
\<close>

theorem docIdFor_deterministic:
  "(messageId \<noteq> [] \<longrightarrow>
      docIdFor now rnd accountId messageId =
        id_text accountId @ lit ''_'' @ base64url (utf8_encode messageId) \<and>
      docIdFor now rnd accountId messageId = docIdFor now' rnd' accountId messageId) \<and>
   docIdFor now rnd accountId [] =
     id_text accountId @ lit ''_'' @ base64url (utf8_encode (placeholder now rnd)) \<and>
   placeholder now rnd \<noteq> [] \<and>
   set (base64url bytes) \<subseteq> set base64url_alphabet"
  by (simp add: docIdFor_def encodedMessageId_def placeholder_not_empty base64url_safe)

theorem docIdFor_deterministic_witness:
  "lit ''<1@x>'' \<noteq> [] \<and>
   docIdFor 1700000000000 (lit ''0.25'') (IdNumber 7) (lit ''<1@x>'') = lit ''7_PDFAeD4'' \<and>
   docIdFor 1700000000000 (lit ''0.25'') (IdNumber 7) (lit ''<1@x>'') =
     docIdFor 1800000000000 (lit ''0.75'') (IdNumber 7) (lit ''<1@x>'') \<and>
   docIdFor 12 (lit ''0.5'') (IdString (lit ''7'')) [] = lit ''7_MTItMC41''"
  using docIdFor_deterministic [of "lit ''<1@x>''" 1700000000000 "lit ''0.25''" "IdNumber 7"
      1800000000000 "lit ''0.75''"]
    docIdFor_deterministic [of "[]" 12 "lit ''0.5''" "IdString (lit ''7'')"]
  by (simp add: docIdFor_def encodedMessageId_def lit_def utf8_encode_def
      utf8_of_code_point_def scalar_def isHighSurrogate_def isLowSurrogate_def show_int_def
      show_nat.simps sextet_def base64url_alphabet_def placeholder_def)

section \<open>Existence check\<close>

lemma docExists_value:
  "snd (docExists clk esExists accountId messageId) =
     Inr (case esExists (docIdFor (c_now clk) (c_rnd clk) accountId messageId) of
            Inr (Wrapped b) \<Rightarrow> b | _ \<Rightarrow> False)"
  by (simp add: docExists_def Let_def split: sum.splits es_reply.splits)

text \<open>
  C8. \<open>docExists\<close> is to return the answer of the index whenever the request succeeds. It
  reads the answer off the property \<open>body\<close> of what the request resolves to. When that is
  the boolean itself, the way \<open>ensureIndex\<close> reads the reply of \<open>indices.exists\<close>, there is
  no such property, and \<open>docExists\<close> returns false although the index has answered true.
  The rest of the claim holds: a request that fails is logged and gives false, a reply
  with a property \<open>body\<close> gives that answer, and the outcome is always a value.
\<close>

theorem docExists_bare_reply:
  "docExists clk (\<lambda>i. Inr (Bare True)) accountId messageId =
     ([EsExists (docIdFor (c_now clk) (c_rnd clk) accountId messageId)], Inr False) \<and>
   docExists clk (\<lambda>i. Inr (Wrapped body)) accountId messageId =
     ([EsExists (docIdFor (c_now clk) (c_rnd clk) accountId messageId)], Inr body) \<and>
   docExists clk (\<lambda>i. Inl err) accountId messageId =
     ([EsExists (docIdFor (c_now clk) (c_rnd clk) accountId messageId),
       Log (ErrorCheckingDocExists err)], Inr False) \<and>
   (\<exists>b. snd (docExists clk esExists accountId messageId) = Inr b)"
  by (simp add: docExists_def Let_def docExists_value [unfolded docExists_def Let_def])

section \<open>Mailbox enumeration is a pre-order traversal\<close>

lemma fold_recurse:
  "(\<And>b names. b \<in> set bs \<Longrightarrow> recurse b names = names @ preorder b) \<Longrightarrow>
   fold recurse bs names = names @ concat (map preorder bs)"
  by (induction bs arbitrary: names) simp_all

lemma push_name_append: "push_name name names = names @ push_name name []"
  by (simp add: push_name_def split: option.splits)

lemma recurse_append_preorder: "recurse b names = names @ preorder b"
proof (induction b arbitrary: names)
  case NoBox
  show ?case by simp
next
  case (Box name children)
  have "fold recurse children (push_name name names)
          = push_name name names @ concat (map preorder children)"
    using Box.IH by (rule fold_recurse)
  then show ?case
    using push_name_append [of name names] by simp
qed

text \<open>
  C9. The names \<open>recurse\<close> collects from the listing are its pre-order sequence: at every
  node, the name of the node (if it has one) comes first, then what each child
  contributes, child after child in the listed order.
\<close>

theorem mailbox_names_preorder:
  "recurse boxes [] = preorder boxes \<and>
   recurse (Box name children) [] =
     push_name name [] @ concat (map (\<lambda>child. recurse child []) children)"
  by (simp add: recurse_append_preorder)

theorem mailbox_names_preorder_witness:
  "recurse (Box (Some (lit ''Root''))
      [Box (Some (lit ''A'')) [Box (Some (lit ''A1'')) [], Box (Some (lit ''A2'')) []],
       Box None [Box (Some (lit ''B1'')) []],
       NoBox,
       Box (Some (lit ''C'')) []]) [] =
   [lit ''Root'', lit ''A'', lit ''A1'', lit ''A2'', lit ''B1'', lit ''C'']"
  using mailbox_names_preorder [of "Box (Some (lit ''Root''))
      [Box (Some (lit ''A'')) [Box (Some (lit ''A1'')) [], Box (Some (lit ''A2'')) []],
       Box None [Box (Some (lit ''B1'')) []],
       NoBox,
       Box (Some (lit ''C'')) []]"]
  by (simp add: push_name_def lit_def)

section \<open>What a connection attempt leaves alone\<close>



lemma add_exists_listener_fields [simp]:
  "shuttingDown (add_exists_listener m w) = shuttingDown w"
  "reconnectAttempts (add_exists_listener m w) = reconnectAttempts w"
  "account (add_exists_listener m w) = account w"
  "connected (add_exists_listener m w) = connected w"
  by (simp_all add: add_exists_listener_def)

lemma subscribe_mailboxes_fields:
  "shuttingDown (fst (subscribe_mailboxes world i ms w)) = shuttingDown w \<and>
   reconnectAttempts (fst (subscribe_mailboxes world i ms w)) = reconnectAttempts w \<and>
   account (fst (subscribe_mailboxes world i ms w)) = account w \<and>
   connected (fst (subscribe_mailboxes world i ms w)) = connected w"
  by (induction ms arbitrary: i w) (simp_all add: Let_def split: option.splits)

lemma enumerate_mailboxes_fields:
  "shuttingDown (fst (enumerate_mailboxes world w)) = shuttingDown w \<and>
   reconnectAttempts (fst (enumerate_mailboxes world w)) = reconnectAttempts w \<and>
   account (fst (enumerate_mailboxes world w)) = account w \<and>
   connected (fst (enumerate_mailboxes world w)) = connected w"
  by (simp add: enumerate_mailboxes_def Let_def subscribe_mailboxes_fields split: sum.splits)

lemma connect_resolved_fields:
  "shuttingDown (fst (connect_resolved world w)) = shuttingDown w \<and>
   reconnectAttempts (fst (connect_resolved world w)) = 0 \<and>
   account (fst (connect_resolved world w)) = account w \<and>
   connected (fst (connect_resolved world w))"
  by (simp add: connect_resolved_def Let_def add_connection_listeners_def enumerate_mailboxes_fields)

section \<open>At most one registered worker per account\<close>

lemma Map_has_iff: "Map_has r k = (k \<in> fst ` set r)"
  by (induction r) auto

lemma Map_get_None_iff: "(Map_get r k = None) = (\<not> Map_has r k)"
  by (induction r) auto

lemma Map_set_keys:
  "map fst (Map_set r k v) = (if Map_has r k then map fst r else map fst r @ [k])"
  by (induction r) auto

lemma Map_set_distinct: "distinct (map fst r) \<Longrightarrow> distinct (map fst (Map_set r k v))"
  by (simp add: Map_set_keys Map_has_iff)

lemma Map_set_has: "Map_has (Map_set r k v) k"
  by (induction r) auto

lemma Map_delete_filter: "Map_delete r k = filter (\<lambda>e. fst e \<noteq> k) r"
  by (induction r) auto

lemma Map_delete_distinct: "distinct (map fst r) \<Longrightarrow> distinct (map fst (Map_delete r k))"
  by (simp add: Map_delete_filter distinct_map_filter)

lemma Map_delete_has: "\<not> Map_has (Map_delete r k) k"
  by (induction r) auto

lemma distinct_keys_at_most_one:
  "distinct (map fst r) \<Longrightarrow> length (filter (\<lambda>e. fst e = k) r) \<le> 1"
proof (induction r)
  case Nil
  then show ?case by simp
next
  case (Cons e r)
  show ?case
  proof (cases "fst e = k")
    case True
    then have "k \<notin> fst ` set r" using Cons.prems by auto
    then have "filter (\<lambda>e. fst e = k) r = []"
      by (auto simp: filter_empty_conv)
    then show ?thesis using True by simp
  next
    case False
    then show ?thesis using Cons by simp
  qed
qed

lemma has_exactly_one:
  "distinct (map fst r) \<Longrightarrow> Map_has r k \<Longrightarrow> length (filter (\<lambda>e. fst e = k) r) = 1"
proof -
  assume d: "distinct (map fst r)" and h: "Map_has r k"
  from h obtain e where "e \<in> set r" "fst e = k" by (auto simp: Map_has_iff)
  then have "filter (\<lambda>e. fst e = k) r \<noteq> []" by (auto simp: filter_empty_conv)
  then have "length (filter (\<lambda>e. fst e = k) r) \<noteq> 0" by simp
  with distinct_keys_at_most_one [OF d, of k] show ?thesis by linarith
qed

lemma workers_run_on [simp]: "workers (run_on a f sys) = workers sys"
  by (simp add: run_on_def Let_def)

lemma workers_start:
  "workers (startWorkerForAccount env acc sys) =
     (if Map_has (workers sys) (a_id acc) then workers sys
      else Map_set (workers sys) (a_id acc) (length (heap sys)))"
  by (simp add: startWorkerForAccount_def Let_def)

lemma workers_stop_called [simp]: "workers (stop_called accountId sys) = workers sys"
  by (simp add: stop_called_def split: option.splits)

lemma workers_emit_exists [simp]: "workers (emit_exists a sys) = workers sys"
  by (simp add: emit_exists_def Let_def)

lemma workers_arrive [simp]: "workers (arrive i x sys) = workers sys"
  by (simp add: arrive_def Let_def)

lemma step_distinct:
  "distinct (map fst (workers sys)) \<Longrightarrow> distinct (map fst (workers (step e sys)))"
  by (cases e) (simp_all add: workers_start Map_set_distinct stop_settled_def Map_delete_distinct)

lemma run_distinct:
  "distinct (map fst (workers sys)) \<Longrightarrow> distinct (map fst (workers (run es sys)))"
  unfolding run_def by (induction es arbitrary: sys) (simp_all add: step_distinct)

lemma reachable_distinct: "distinct (map fst (workers (run es initial)))"
  by (rule run_distinct) (simp add: initial_def)

lemma start_registered: "Map_has (workers (startWorkerForAccount env acc sys)) (a_id acc)"
  by (simp add: workers_start Map_set_has)

text \<open>
  C2. In every state the system can reach, the registry has at most one entry for an
  account id, and after two calls of start for the same account it has exactly one. A
  call of start for a registered account only logs, leaving the registry and everything
  else as it was; a call of stop for an account that is not registered changes nothing.
\<close>

theorem registry_at_most_one:
  "length (filter (\<lambda>e. fst e = accountId) (workers (run es initial))) \<le> 1 \<and>
   length (filter (\<lambda>e. fst e = a_id acc)
     (workers (startWorkerForAccount env' acc (startWorkerForAccount env acc (run es initial))))) = 1 \<and>
   (Map_has (workers sys) (a_id acc) \<longrightarrow>
      startWorkerForAccount env acc sys =
        sys\<lparr>trace := trace sys @ [Registry_logged (WorkerAlreadyRunning (a_id acc))]\<rparr>) \<and>
   (\<not> Map_has (workers sys) accountId \<longrightarrow>
      stopWorkerForAccount outcome accountId sys = sys \<and> stop_called accountId sys = sys)"
proof -
  let ?s = "run es initial"
  have one: "length (filter (\<lambda>e. fst e = accountId) (workers ?s)) \<le> 1"
    by (rule distinct_keys_at_most_one [OF reachable_distinct])
  have d1: "distinct (map fst (workers (startWorkerForAccount env acc ?s)))"
    using step_distinct [OF reachable_distinct, of "Start env acc" es] by simp
  have d2: "distinct (map fst (workers (startWorkerForAccount env' acc (startWorkerForAccount env acc ?s))))"
    using step_distinct [OF d1, of "Start env' acc"] by simp
  have twice: "length (filter (\<lambda>e. fst e = a_id acc)
     (workers (startWorkerForAccount env' acc (startWorkerForAccount env acc ?s)))) = 1"
    by (rule has_exactly_one [OF d2 start_registered])
  have noop_start: "Map_has (workers sys) (a_id acc) \<longrightarrow>
      startWorkerForAccount env acc sys =
        sys\<lparr>trace := trace sys @ [Registry_logged (WorkerAlreadyRunning (a_id acc))]\<rparr>"
    by (simp add: startWorkerForAccount_def)
  have noop_stop: "\<not> Map_has (workers sys) accountId \<longrightarrow>
      stopWorkerForAccount outcome accountId sys = sys \<and> stop_called accountId sys = sys"
    by (simp add: stopWorkerForAccount_def stop_called_def Map_get_None_iff [symmetric])
  show ?thesis
    using one twice noop_start noop_stop by blast
qed

lemma ex_started:
  "run [Start NoMasterKey ex_account] initial =
     \<lparr>heap = [ex_worker], workers = [(7, 0)], timers = [], connecting = [0], stopping = [],
      waiting = [], trace = [Worker_did 0 ImapConnect]\<rparr>"
  by (simp add: run_def initial_def startWorkerForAccount_def run_on_def Let_def
      connectAndListen_call_def ex_worker_def new_worker_def ex_account_def)

lemma ex_refused_eq:
  "ex_refused =
     \<lparr>heap = [ex_worker\<lparr>reconnectAttempts := 1\<rparr>], workers = [(7, 0)], timers = [(0, 2000)],
      connecting = [], stopping = [], waiting = [],
      trace = [Worker_did 0 ImapConnect,
               Worker_did 0 (Log (FailedToConnect 7 (JsError ''refused''))),
               Worker_did 0 (Log (Reconnecting 7 2000)),
               Worker_did 0 (SetTimeout 2000)]\<rparr>"
  by (simp add: ex_refused_def run_def initial_def startWorkerForAccount_def run_on_def Let_def
      connectAndListen_call_def ex_worker_def new_worker_def ex_account_def remove_at_def
      connect_settled_def connect_rejected_def retryConnect_def)

lemma ex_account_id [simp]: "a_id ex_account = 7"
  by (simp add: ex_account_def)

theorem registry_at_most_one_witness:
  "Map_has (workers (run [Start NoMasterKey ex_account] initial)) (a_id ex_account) \<and>
   \<not> Map_has (workers initial) 7 \<and>
   workers (startWorkerForAccount NoMasterKey ex_account
             (startWorkerForAccount NoMasterKey ex_account (run [] initial))) = [(7, 0)] \<and>
   startWorkerForAccount NoMasterKey ex_account (run [Start NoMasterKey ex_account] initial) =
     (run [Start NoMasterKey ex_account] initial)
       \<lparr>trace := [Worker_did 0 ImapConnect, Registry_logged (WorkerAlreadyRunning 7)]\<rparr> \<and>
   stopWorkerForAccount None 7 initial = initial \<and> stop_called 7 initial = initial"
proof -
  have registered: "Map_has (workers (run [Start NoMasterKey ex_account] initial)) (a_id ex_account)"
    by (simp add: ex_started)
  have absent: "\<not> Map_has (workers initial) 7"
    by (simp add: initial_def)
  have twice: "workers (startWorkerForAccount NoMasterKey ex_account
             (startWorkerForAccount NoMasterKey ex_account (run [] initial))) = [(7, 0)]"
    by (simp add: run_def initial_def startWorkerForAccount_def Let_def run_on_def)
  show ?thesis
    using registry_at_most_one [of 7 "[]" ex_account NoMasterKey NoMasterKey
        "run [Start NoMasterKey ex_account] initial" None]
      registry_at_most_one [of 7 "[]" ex_account NoMasterKey NoMasterKey initial None]
      registered absent twice
    by (simp add: ex_started)
qed


section \<open>No action of the pipeline is a reconnect\<close>

lemma calm_docExists: "calm (fst (docExists clk esExists accountId messageId))"
  by (simp add: docExists_def Let_def split: sum.splits es_reply.splits)

lemma calm_indexEmail: "calm (fst (indexEmail clk esIndex doc))"
  by (simp add: indexEmail_def Let_def split: option.splits)

lemma calm_backfill_message: "calm (fst (backfill_message accountId mailbox item))"
  by (simp add: backfill_message_def Let_def calm_docExists calm_indexEmail split: sum.splits)

lemma calm_backfill_messages: "calm (fst (backfill_messages accountId mailbox items fin))"
  by (induction items) (simp_all add: Let_def calm_backfill_message split: sum.splits)

lemma calm_fetchLast30Days: "calm (fetchLast30DaysForMailbox world accountId mailbox)"
  by (simp add: fetchLast30DaysForMailbox_def fetchLast30Days_try_def Let_def
      calm_backfill_messages split: sum.splits option.splits)

lemma calm_resume: "calm (fst (resume accountId st x))"
  by (induction accountId st x rule: resume.induct)
     (simp_all add: Let_def split: sum.splits option.splits fetch_next.splits es_reply.splits)

lemma calm_exists_listeners: "calm (concat (map (fst \<circ> exists_listener) ms))"
  by (induction ms) (simp_all add: exists_listener_def)

lemma calm_subscribe_mailboxes: "calm (snd (subscribe_mailboxes world i ms w))"
  by (induction ms arbitrary: i w)
     (simp_all add: Let_def calm_fetchLast30Days split: option.splits)

lemma calm_enumerate_mailboxes: "calm (snd (enumerate_mailboxes world w))"
  by (simp add: enumerate_mailboxes_def Let_def calm_subscribe_mailboxes split: sum.splits)

section \<open>A worker that is shutting down stays so and does not reconnect\<close>

lemma retryConnect_down: "shuttingDown w \<Longrightarrow> retryConnect w = (w, [])"
  by (simp add: retryConnect_def)

lemma down_connect_settled:
  "shuttingDown w \<Longrightarrow>
   shuttingDown (fst (connect_settled outcome w)) \<and> calm (snd (connect_settled outcome w))"
proof (cases outcome)
  case (Inl err)
  assume "shuttingDown w"
  then show ?thesis
    using Inl by (simp add: connect_settled_def connect_rejected_def retryConnect_down Let_def)
next
  case (Inr world)
  assume "shuttingDown w"
  then have "shuttingDown (fst (connect_resolved world w))"
    using connect_resolved_fields [of world w] by simp
  moreover have "calm (snd (connect_resolved world w))"
    by (simp add: connect_resolved_def Let_def calm_enumerate_mailboxes)
  ultimately show ?thesis
    using Inr by (simp add: connect_settled_def)
qed

lemma down_timer_callback: "shuttingDown w \<Longrightarrow> timer_callback w = (w, [])"
  by (simp add: timer_callback_def)

lemma down_emit_n:
  assumes "\<And>w. shuttingDown w \<Longrightarrow> shuttingDown (fst (l w)) \<and> calm (snd (l w))"
  shows "shuttingDown w \<Longrightarrow> shuttingDown (fst (emit_n n l w)) \<and> calm (snd (emit_n n l w))"
  by (induction n arbitrary: w) (simp_all add: Let_def assms)

lemma down_emit_error:
  "shuttingDown w \<Longrightarrow> shuttingDown (fst (emit_error err w)) \<and> calm (snd (emit_error err w))"
  unfolding emit_error_def by (rule down_emit_n) (simp_all add: error_listener_def)

lemma down_emit_close:
  "shuttingDown w \<Longrightarrow> shuttingDown (fst (emit_close w)) \<and> calm (snd (emit_close w))"
  unfolding emit_close_def by (rule down_emit_n) (simp_all add: close_listener_def)

lemma down_emit_end:
  "shuttingDown w \<Longrightarrow> shuttingDown (fst (emit_end w)) \<and> calm (snd (emit_end w))"
  unfolding emit_end_def by (rule down_emit_n) (simp_all add: end_listener_def)

section \<open>The same on the system\<close>

lemma filter_reconnect_calm:
  "calm acts \<Longrightarrow> filter (reconnect_of a) (map (Worker_did b) acts) = []"
  by (induction acts) simp_all

lemma filter_reconnect_other:
  "b \<noteq> a \<Longrightarrow> filter (reconnect_of a) (map (Worker_did b) acts) = []"
  by (induction acts) simp_all

lemma run_on_other:
  assumes "stopped a sys" "b \<noteq> a"
  shows "stopped a (run_on b f sys) \<and>
         filter (reconnect_of a) (trace (run_on b f sys)) = filter (reconnect_of a) (trace sys)"
  using assms by (simp add: stopped_def run_on_def Let_def filter_reconnect_other)

lemma run_on_same:
  assumes "stopped a sys"
    and "\<And>w. shuttingDown w \<Longrightarrow> shuttingDown (fst (f w)) \<and> calm (snd (f w))"
  shows "stopped a (run_on a f sys) \<and>
         filter (reconnect_of a) (trace (run_on a f sys)) = filter (reconnect_of a) (trace sys)"
  using assms by (simp add: stopped_def run_on_def Let_def filter_reconnect_calm)

lemma run_on_stopped:
  assumes "stopped a sys"
    and "\<And>w. shuttingDown w \<Longrightarrow> shuttingDown (fst (f w)) \<and> calm (snd (f w))"
  shows "stopped a (run_on b f sys) \<and>
         filter (reconnect_of a) (trace (run_on b f sys)) = filter (reconnect_of a) (trace sys)"
  using run_on_other [OF assms(1), of b f] run_on_same [OF assms] by (cases "b = a") simp_all

lemma stopped_pending [simp]:
  "stopped a (sys\<lparr>connecting := c\<rparr>) = stopped a sys"
  "stopped a (sys\<lparr>timers := t\<rparr>) = stopped a sys"
  "stopped a (sys\<lparr>stopping := p\<rparr>) = stopped a sys"
  "stopped a (sys\<lparr>waiting := q\<rparr>) = stopped a sys"
  "stopped a (sys\<lparr>trace := tr\<rparr>) = stopped a sys"
  "stopped a (sys\<lparr>workers := r\<rparr>) = stopped a sys"
  by (simp_all add: stopped_def)

lemma start_stopped:
  assumes "stopped a sys"
  shows "stopped a (startWorkerForAccount env acc sys) \<and>
         filter (reconnect_of a) (trace (startWorkerForAccount env acc sys)) =
           filter (reconnect_of a) (trace sys)"
proof (cases "Map_has (workers sys) (a_id acc)")
  case True
  then show ?thesis using assms by (simp add: startWorkerForAccount_def)
next
  case False
  let ?s1 = "sys\<lparr>heap := heap sys @ [new_worker env acc],
                  workers := Map_set (workers sys) (a_id acc) (length (heap sys))\<rparr>"
  have s1: "stopped a ?s1" using assms by (simp add: stopped_def nth_append)
  have ne: "length (heap sys) \<noteq> a" using assms by (simp add: stopped_def)
  have "stopped a (run_on (length (heap sys)) connectAndListen_call ?s1) \<and>
        filter (reconnect_of a) (trace (run_on (length (heap sys)) connectAndListen_call ?s1)) =
          filter (reconnect_of a) (trace ?s1)"
    by (rule run_on_other [OF s1 ne])
  then show ?thesis using False by (simp add: startWorkerForAccount_def Let_def)
qed

lemma stop_called_stopped:
  assumes "stopped a sys"
  shows "stopped a (stop_called accountId sys) \<and>
         filter (reconnect_of a) (trace (stop_called accountId sys)) =
           filter (reconnect_of a) (trace sys)"
proof (cases "Map_get (workers sys) accountId")
  case None
  then show ?thesis using assms by (simp add: stop_called_def)
next
  case (Some b)
  have "shuttingDown ((heap sys)[b := (heap sys ! b)\<lparr>shuttingDown := True\<rparr>] ! a)"
    using assms by (cases "b = a") (simp_all add: stopped_def)
  then show ?thesis
    using Some assms by (simp add: stop_called_def stopped_def)
qed

lemma step_stopped:
  assumes "stopped a sys"
  shows "stopped a (step e sys) \<and>
         filter (reconnect_of a) (trace (step e sys)) = filter (reconnect_of a) (trace sys)"
proof (cases e)
  case (Start env acc)
  then show ?thesis using start_stopped [OF assms] by simp
next
  case (StopCalled accountId)
  then show ?thesis using stop_called_stopped [OF assms] by simp
next
  case (LogoutSettled i outcome)
  then show ?thesis using assms by (simp add: stop_settled_def split: option.splits)
next
  case (ConnectSettled i outcome)
  have "stopped a (sys\<lparr>connecting := remove_at i (connecting sys)\<rparr>)" using assms by simp
  from run_on_stopped [OF this, of "connect_settled outcome" "connecting sys ! i"]
  show ?thesis using ConnectSettled assms by (simp add: down_connect_settled)
next
  case (TimerFired i)
  have "stopped a (sys\<lparr>timers := remove_at i (timers sys)\<rparr>)" using assms by simp
  from run_on_stopped [OF this, of timer_callback "fst (timers sys ! i)"]
  show ?thesis using TimerFired assms by (simp add: down_timer_callback)
next
  case (EmitError b err)
  from run_on_stopped [OF assms, of "emit_error err" b]
  show ?thesis using EmitError assms by (simp add: down_emit_error)
next
  case (EmitClose b)
  from run_on_stopped [OF assms, of emit_close b]
  show ?thesis using EmitClose assms by (simp add: down_emit_close)
next
  case (EmitEnd b)
  from run_on_stopped [OF assms, of emit_end b]
  show ?thesis using EmitEnd assms by (simp add: down_emit_end)
next
  case (EmitExists b)
  then show ?thesis
    using assms by (simp add: emit_exists_def Let_def filter_reconnect_calm calm_exists_listeners)
next
  case (Arrived i x)
  then show ?thesis
    using assms by (simp add: arrive_def Let_def filter_reconnect_calm calm_resume)
qed

lemma run_stopped:
  "stopped a sys \<Longrightarrow>
   stopped a (run es sys) \<and>
   filter (reconnect_of a) (trace (run es sys)) = filter (reconnect_of a) (trace sys)"
  unfolding run_def
proof (induction es arbitrary: sys)
  case Nil
  then show ?case by simp
next
  case (Cons e es)
  have s1: "stopped a (step e sys)"
    and t1: "filter (reconnect_of a) (trace (step e sys)) = filter (reconnect_of a) (trace sys)"
    using step_stopped [OF Cons.prems] by simp_all
  show ?case using Cons.IH [OF s1] t1 by simp
qed

lemma timer_of_stopped:
  assumes "stopped a sys" "i < length (timers sys)" "fst (timers sys ! i) = a"
  shows "step (TimerFired i) sys = sys\<lparr>timers := remove_at i (timers sys)\<rparr>"
  using assms by (simp add: run_on_def stopped_def down_timer_callback)

text \<open>
  C3. Let stop be called for a registered account whose worker is at address \<open>a\<close>, and let
  any events follow. The worker stays flagged as shutting down, and the trace gains no
  connection attempt and no scheduled retry of that worker. A timer of that worker that
  was pending when stop was called only disappears when it fires. Every place that
  decides on a reconnect checks the flag. However \<open>logout\<close> ends, the account is then
  absent from the registry, and a failure of \<open>logout\<close> is logged.
\<close>

theorem stop_suppresses_reconnect:
  assumes "Map_get (workers sys) accountId = Some a" and "a < length (heap sys)"
    and "s' = run es (stop_called accountId sys)"
  shows
   "shuttingDown (heap s' ! a) \<and>
    filter (reconnect_of a) (trace s') = filter (reconnect_of a) (trace sys) \<and>
    (\<forall>i. i < length (timers s') \<and> fst (timers s' ! i) = a \<longrightarrow>
         step (TimerFired i) s' = s'\<lparr>timers := remove_at i (timers s')\<rparr>) \<and>
    (shuttingDown w \<longrightarrow>
       retryConnect w = (w, []) \<and> connectAndListen_call w = (w, []) \<and>
       timer_callback w = (w, []) \<and> scheduled (snd (close_listener w)) = [] \<and>
       scheduled (snd (end_listener w)) = [] \<and>
       scheduled (snd (connect_rejected err w)) = []) \<and>
    \<not> Map_has (workers (stop_settled outcome accountId s')) accountId \<and>
    \<not> Map_has (workers (stopWorkerForAccount outcome accountId sys)) accountId \<and>
    trace (stopWorkerForAccount (Some err) accountId sys) =
      trace sys @ [Worker_did a ImapLogout, Registry_logged (ErrorLoggingOut err),
                   Registry_logged (WorkerStopped accountId)]"
proof -
  let ?s1 = "stop_called accountId sys"
  have s1: "stopped a ?s1"
    using assms(1,2) by (simp add: stop_called_def stopped_def)
  have t1: "filter (reconnect_of a) (trace ?s1) = filter (reconnect_of a) (trace sys)"
    using assms(1) by (simp add: stop_called_def)
  have s': "stopped a s'"
    and t': "filter (reconnect_of a) (trace s') = filter (reconnect_of a) (trace ?s1)"
    using run_stopped [OF s1, of es] assms(3) by simp_all
  have flag: "shuttingDown (heap s' ! a)"
    using s' by (simp add: stopped_def)
  have timer: "\<forall>i. i < length (timers s') \<and> fst (timers s' ! i) = a \<longrightarrow>
         step (TimerFired i) s' = s'\<lparr>timers := remove_at i (timers s')\<rparr>"
    using timer_of_stopped [OF s'] by blast
  have checks: "shuttingDown w \<longrightarrow>
       retryConnect w = (w, []) \<and> connectAndListen_call w = (w, []) \<and>
       timer_callback w = (w, []) \<and> scheduled (snd (close_listener w)) = [] \<and>
       scheduled (snd (end_listener w)) = [] \<and>
       scheduled (snd (connect_rejected err w)) = []"
    by (simp add: retryConnect_def connectAndListen_call_def timer_callback_def
        close_listener_def end_listener_def connect_rejected_def Let_def)
  have gone: "\<not> Map_has (workers (stop_settled outcome accountId s')) accountId"
    by (simp add: stop_settled_def Map_delete_has)
  have gone2: "\<not> Map_has (workers (stopWorkerForAccount outcome accountId sys)) accountId"
    using assms(1) by (simp add: stopWorkerForAccount_def stop_settled_def Let_def Map_delete_has)
  have logged: "trace (stopWorkerForAccount (Some err) accountId sys) =
      trace sys @ [Worker_did a ImapLogout, Registry_logged (ErrorLoggingOut err),
                   Registry_logged (WorkerStopped accountId)]"
    using assms(1) by (simp add: stopWorkerForAccount_def stop_settled_def stop_called_def Let_def)
  show ?thesis
    using flag t' t1 timer checks gone gone2 logged by simp
qed

theorem stop_suppresses_reconnect_witness:
  "Map_get (workers ex_refused) 7 = Some 0 \<and> 0 < length (heap ex_refused) \<and>
   timers (stop_called 7 ex_refused) = [(0, 2000)] \<and>
   shuttingDown (heap (run [TimerFired 0, EmitClose 0, EmitEnd 0] (stop_called 7 ex_refused)) ! 0) \<and>
   filter (reconnect_of 0)
     (trace (run [TimerFired 0, EmitClose 0, EmitEnd 0] (stop_called 7 ex_refused))) =
     [Worker_did 0 ImapConnect, Worker_did 0 (SetTimeout 2000)] \<and>
   step (TimerFired 0) (stop_called 7 ex_refused) = (stop_called 7 ex_refused)\<lparr>timers := []\<rparr> \<and>
   shuttingDown (heap (stop_called 7 ex_refused) ! 0) \<and>
   retryConnect (heap (stop_called 7 ex_refused) ! 0) = (heap (stop_called 7 ex_refused) ! 0, []) \<and>
   workers (stopWorkerForAccount (Some (JsError ''logout failed'')) 7 ex_refused) = []"
proof -
  have h1: "Map_get (workers ex_refused) 7 = Some 0" and h2: "0 < length (heap ex_refused)"
    by (simp_all add: ex_refused_eq)
  have pending: "timers (stop_called 7 ex_refused) = [(0, 2000)]"
    by (simp add: ex_refused_eq stop_called_def)
  have before: "filter (reconnect_of 0) (trace ex_refused) =
      [Worker_did 0 ImapConnect, Worker_did 0 (SetTimeout 2000)]"
    by (simp add: ex_refused_eq)
  have removed: "workers (stopWorkerForAccount (Some (JsError ''logout failed'')) 7 ex_refused) = []"
    by (simp add: ex_refused_eq stopWorkerForAccount_def stop_called_def stop_settled_def Let_def)
  have fired: "step (TimerFired 0) (stop_called 7 ex_refused) = (stop_called 7 ex_refused)\<lparr>timers := []\<rparr>"
    using stop_suppresses_reconnect [OF h1 h2, of "stop_called 7 ex_refused" "[]"] pending
    by (simp add: run_def remove_at_def)
  have flagged: "shuttingDown (heap (stop_called 7 ex_refused) ! 0)"
    using stop_suppresses_reconnect [OF h1 h2, of "stop_called 7 ex_refused" "[]"]
    by (simp add: run_def)
  have checked:
    "retryConnect (heap (stop_called 7 ex_refused) ! 0) = (heap (stop_called 7 ex_refused) ! 0, [])"
    using stop_suppresses_reconnect [OF h1 h2, of "stop_called 7 ex_refused" "[]"
        "heap (stop_called 7 ex_refused) ! 0"] flagged
    by (simp add: run_def)
  show ?thesis
    using stop_suppresses_reconnect [OF h1 h2 refl, of "[TimerFired 0, EmitClose 0, EmitEnd 0]"]
      h1 h2 pending before removed fired flagged checked
    by simp
qed

section \<open>Listeners\<close>

lemma subscribed_Cons:
  "subscribed world i (m # ms) =
     (if mb_open_rw (world i) = None then [m] else []) @ subscribed world (Suc i) ms"
  by (simp add: subscribed_def)

lemma subscribed_Nil [simp]: "subscribed world i [] = []"
  by (simp add: subscribed_def)

lemma on_exists_add [simp]:
  "on_exists (client (add_exists_listener m w)) = on_exists (client w) @ [m]"
  by (simp add: add_exists_listener_def)

lemma subscribe_mailboxes_listeners:
  "on_exists (client (fst (subscribe_mailboxes world i ms w))) =
     on_exists (client w) @ subscribed world i ms"
  by (induction ms arbitrary: i w) (auto simp add: Let_def subscribed_Cons split: option.splits)

lemma subscribe_mailboxes_other_listeners:
  "on_close (client (fst (subscribe_mailboxes world i ms w))) = on_close (client w) \<and>
   on_end (client (fst (subscribe_mailboxes world i ms w))) = on_end (client w) \<and>
   on_error (client (fst (subscribe_mailboxes world i ms w))) = on_error (client w)"
  by (induction ms arbitrary: i w)
     (auto simp add: Let_def add_exists_listener_def split: option.splits)

lemma connect_resolved_listeners:
  "on_exists (client (fst (connect_resolved world w))) =
     on_exists (client w) @ subscribed (wc_mailbox world) 0 (enumerated world)"
  by (simp add: connect_resolved_def enumerate_mailboxes_def enumerated_def Let_def
      add_connection_listeners_def subscribe_mailboxes_listeners split: sum.splits)














section \<open>One event, every listener\<close>








section \<open>Failures during backfill\<close>

lemma backfill_message_completes: "snd (backfill_message accountId mailbox item) = Inr ()"
  by (simp add: backfill_message_def Let_def docExists_value split: sum.splits)

lemma backfill_messages_all:
  "fst (backfill_messages accountId mailbox items fin) =
     concat (map (\<lambda>item. fst (backfill_message accountId mailbox item)) items) \<and>
   snd (backfill_messages accountId mailbox items fin) =
     (case fin of None \<Rightarrow> Inr () | Some err \<Rightarrow> Inl err)"
  by (induction items) (simp_all add: Let_def backfill_message_completes)

lemma upsert_failure_logged:
  assumes "snd (docExists (w_clock_exists wm) (w_esExists wm) (IdString (show_int accountId))
                  (resolve_id msg wm)) = Inr False"
    and "snd (indexEmail (w_clock_index wm) (w_esIndex wm) (build_doc accountId mailbox msg wm)) = Inl err"
  shows "fst (backfill_message accountId mailbox (msg, wm)) =
     fst (docExists (w_clock_exists wm) (w_esExists wm) (IdString (show_int accountId))
            (resolve_id msg wm)) @
     fst (indexEmail (w_clock_index wm) (w_esIndex wm) (build_doc accountId mailbox msg wm)) @
     [Log (IndexingErrorHistorical err)]"
  using assms by (simp add: backfill_message_def Let_def)

lemma backfill_of_mailbox:
  assumes "b_open bw = None" "b_search bw = Inr (Some uids)" "uids \<noteq> []" "snd (b_fetch bw) = None"
  shows "fetchLast30DaysForMailbox bw accountId mailbox =
     [ImapOpen mailbox True, ImapSearch, ImapFetchUids uids] @
     concat (map (\<lambda>item. fst (backfill_message accountId mailbox item)) (fst (b_fetch bw)))"
  using assms
  by (simp add: fetchLast30DaysForMailbox_def fetchLast30Days_try_def Let_def backfill_messages_all)

lemma backfill_failure_logged:
  "snd (fetchLast30Days_try bw accountId mailbox) = Inl err \<Longrightarrow>
   fetchLast30DaysForMailbox bw accountId mailbox =
     fst (fetchLast30Days_try bw accountId mailbox) @ [Log (ErrorFetchingMailbox mailbox err)]"
  by (simp add: fetchLast30DaysForMailbox_def Let_def)

lemma subscribe_mailboxes_all:
  "snd (subscribe_mailboxes world i ms w) =
     concat (map (at_mailbox world (a_id (account w))) (List.enumerate i ms))"
  by (induction ms arbitrary: i w)
     (simp_all add: Let_def at_mailbox_def split: option.splits)

lemma connect_resolved_all:
  "wc_list cworld = Inr boxes \<Longrightarrow>
   snd (connect_resolved cworld w) =
     Log (ImapConnected (a_id (account w)) (a_name (account w))) # ImapList #
     concat (map (at_mailbox (wc_mailbox cworld) (a_id (account w)))
               (List.enumerate 0 (recurse boxes [])))"
  by (simp add: connect_resolved_def enumerate_mailboxes_def Let_def subscribe_mailboxes_all)

text \<open>
  C7 (amended). The loop body of the backfill always completes, so every fetched message
  is processed, whatever happened to the upserts before it; an upsert that fails is
  logged. A backfill that fails (open, search or fetch) is logged and ends there. The
  worker does the same at every mailbox of the sequence, whatever failed at the earlier
  ones: the backfill, then the read-write open, and a log line when that open fails. The
  mailboxes that get a listener are those whose read-write open succeeds, whether or not
  their backfill failed.
\<close>

theorem backfill_failures_contained:
  "snd (backfill_message accountId mailbox item) = Inr () \<and>
   fst (backfill_messages accountId mailbox items None) =
     concat (map (\<lambda>item. fst (backfill_message accountId mailbox item)) items) \<and>
   (snd (docExists (w_clock_exists wm) (w_esExists wm) (IdString (show_int accountId))
           (resolve_id msg wm)) = Inr False \<and>
    snd (indexEmail (w_clock_index wm) (w_esIndex wm) (build_doc accountId mailbox msg wm)) = Inl err \<longrightarrow>
      fst (backfill_message accountId mailbox (msg, wm)) =
        fst (docExists (w_clock_exists wm) (w_esExists wm) (IdString (show_int accountId))
               (resolve_id msg wm)) @
        fst (indexEmail (w_clock_index wm) (w_esIndex wm) (build_doc accountId mailbox msg wm)) @
        [Log (IndexingErrorHistorical err)]) \<and>
   (b_open bw = None \<and> b_search bw = Inr (Some uids) \<and> uids \<noteq> [] \<and> snd (b_fetch bw) = None \<longrightarrow>
      fetchLast30DaysForMailbox bw accountId mailbox =
        [ImapOpen mailbox True, ImapSearch, ImapFetchUids uids] @
        concat (map (\<lambda>item. fst (backfill_message accountId mailbox item)) (fst (b_fetch bw)))) \<and>
   (snd (fetchLast30Days_try bw' accountId mailbox) = Inl err' \<longrightarrow>
      fetchLast30DaysForMailbox bw' accountId mailbox =
        fst (fetchLast30Days_try bw' accountId mailbox) @ [Log (ErrorFetchingMailbox mailbox err')]) \<and>
   snd (subscribe_mailboxes world i ms w) =
     concat (map (at_mailbox world (a_id (account w))) (List.enumerate i ms)) \<and>
   on_exists (client (fst (subscribe_mailboxes world i ms w))) =
     on_exists (client w) @ subscribed world i ms \<and>
   (wc_list cworld = Inr boxes \<longrightarrow>
      snd (connect_resolved cworld w) =
        Log (ImapConnected (a_id (account w)) (a_name (account w))) # ImapList #
        concat (map (at_mailbox (wc_mailbox cworld) (a_id (account w)))
                  (List.enumerate 0 (recurse boxes []))))"
  using backfill_message_completes [of accountId mailbox item]
    backfill_messages_all [of accountId mailbox items None]
    upsert_failure_logged [of wm accountId msg mailbox err]
    backfill_of_mailbox [of bw uids accountId mailbox]
    backfill_failure_logged [of bw' accountId mailbox err']
    subscribe_mailboxes_all [of world i ms w]
    subscribe_mailboxes_listeners [of world i ms w]
    connect_resolved_all [of cworld boxes w]
  by blast

lemma parsed_without_id: "parsed_messageId (Some (parseRawEmail simpleParser raw)) = None"
  by (simp add: parsed_messageId_def parseRawEmail_def split: sum.splits)

lemma ex_resolve_1: "resolve_id (ex_msg ''<1@x>'') w = lit ''<1@x>''"
  by (simp add: resolve_id_def extractMessageId_def parsed_without_id)
     (simp add: ex_msg_def rawToText_def js_match_def re_Message_ID_def header_regex_def
        lit_def canonicalize_def isSpace_def isWhiteSpace_def isLineTerminator_def trim_def)

lemma ex_resolve_2: "resolve_id (ex_msg ''<2@x>'') w = lit ''<2@x>''"
  by (simp add: resolve_id_def extractMessageId_def parsed_without_id)
     (simp add: ex_msg_def rawToText_def js_match_def re_Message_ID_def header_regex_def
        lit_def canonicalize_def isSpace_def isWhiteSpace_def isLineTerminator_def trim_def)

lemma ex_docId_1: "docIdFor now rnd (IdString (show_int 7)) (lit ''<1@x>'') = lit ''7_PDFAeD4''"
  by (simp add: docIdFor_def encodedMessageId_def lit_def utf8_encode_def
      utf8_of_code_point_def scalar_def isHighSurrogate_def isLowSurrogate_def sextet_def
      base64url_alphabet_def show_int_def show_nat.simps)

lemma ex_docId_2: "docIdFor now rnd (IdString (show_int 7)) (lit ''<2@x>'') = lit ''7_PDJAeD4''"
  by (simp add: docIdFor_def encodedMessageId_def lit_def utf8_encode_def
      utf8_of_code_point_def scalar_def isHighSurrogate_def isLowSurrogate_def sextet_def
      base64url_alphabet_def show_int_def show_nat.simps)

lemma build_doc_ids:
  "d_messageId (build_doc accountId mailbox msg w) = resolve_id msg w"
  "d_accountId (build_doc accountId mailbox msg w) = show_int accountId"
  by (simp_all add: build_doc_def Let_def)

lemma ex_world_msg_replies:
  "w_esExists (ex_world_msg b) = (\<lambda>i. Inr (Wrapped False))"
  "w_esIndex (ex_world_msg b) = (\<lambda>i. if b then None else Some (JsError ''index down''))"
  by (simp_all add: ex_world_msg_def)

lemma ex_not_found_1:
  "docExists (w_clock_exists (ex_world_msg b)) (w_esExists (ex_world_msg b)) (IdString (show_int 7))
     (resolve_id (ex_msg ''<1@x>'') (ex_world_msg b)) = ([EsExists (lit ''7_PDFAeD4'')], Inr False)"
  by (simp add: docExists_def Let_def ex_resolve_1 ex_docId_1 ex_world_msg_replies)

lemma ex_not_found_2:
  "docExists (w_clock_exists (ex_world_msg b)) (w_esExists (ex_world_msg b)) (IdString (show_int 7))
     (resolve_id (ex_msg ''<2@x>'') (ex_world_msg b)) = ([EsExists (lit ''7_PDJAeD4'')], Inr False)"
  by (simp add: docExists_def Let_def ex_resolve_2 ex_docId_2 ex_world_msg_replies)

lemma ex_index_down:
  "indexEmail (w_clock_index (ex_world_msg False)) (w_esIndex (ex_world_msg False))
     (build_doc 7 mailbox (ex_msg ''<1@x>'') (ex_world_msg False)) =
   ([EsIndex (lit ''7_PDFAeD4'') (build_doc 7 mailbox (ex_msg ''<1@x>'') (ex_world_msg False)),
     Log (FailedToIndexEmail (lit ''7_PDFAeD4'') (JsError ''index down''))],
    Inl (JsError ''index down''))"
  by (simp add: indexEmail_def Let_def build_doc_ids ex_resolve_1 ex_docId_1 ex_world_msg_replies)

lemma ex_index_up:
  "indexEmail (w_clock_index (ex_world_msg True)) (w_esIndex (ex_world_msg True))
     (build_doc 7 mailbox (ex_msg ''<2@x>'') (ex_world_msg True)) =
   ([EsIndex (lit ''7_PDJAeD4'') (build_doc 7 mailbox (ex_msg ''<2@x>'') (ex_world_msg True))], Inr ())"
  by (simp add: indexEmail_def Let_def build_doc_ids ex_resolve_2 ex_docId_2 ex_world_msg_replies)

lemma ex_message_1:
  "fst (backfill_message 7 mailbox (ex_msg ''<1@x>'', ex_world_msg False)) =
     [EsExists (lit ''7_PDFAeD4''),
      EsIndex (lit ''7_PDFAeD4'') (build_doc 7 mailbox (ex_msg ''<1@x>'') (ex_world_msg False)),
      Log (FailedToIndexEmail (lit ''7_PDFAeD4'') (JsError ''index down'')),
      Log (IndexingErrorHistorical (JsError ''index down''))]"
  by (simp add: backfill_message_def Let_def ex_not_found_1 ex_index_down)

lemma ex_message_2:
  "fst (backfill_message 7 mailbox (ex_msg ''<2@x>'', ex_world_msg True)) =
     [EsExists (lit ''7_PDJAeD4''),
      EsIndex (lit ''7_PDJAeD4'') (build_doc 7 mailbox (ex_msg ''<2@x>'') (ex_world_msg True))]"
  by (simp add: backfill_message_def Let_def ex_not_found_2 ex_index_up)

lemma ex_search_failed:
  "fetchLast30Days_try ex_search_fails accountId mailbox =
     ([ImapOpen mailbox True, ImapSearch], Inl (JsError ''search failed''))"
  by (simp add: fetchLast30Days_try_def ex_search_fails_def)

lemma ex_search_failed_logged:
  "fetchLast30DaysForMailbox ex_search_fails accountId mailbox =
     [ImapOpen mailbox True, ImapSearch, Log (ErrorFetchingMailbox mailbox (JsError ''search failed''))]"
  by (simp add: fetchLast30DaysForMailbox_def ex_search_failed)

lemma ex_nothing_found:
  "fetchLast30DaysForMailbox ex_no_mail accountId mailbox = [ImapOpen mailbox True, ImapSearch]"
  by (simp add: fetchLast30DaysForMailbox_def fetchLast30Days_try_def ex_no_mail_def)

lemma ex_names: "recurse ex_boxes [] = [lit ''INBOX'', lit ''Sent'']"
  by (simp add: ex_boxes_def push_name_def lit_def)

lemma ex_worker_account: "a_id (account ex_worker) = 7" "a_name (account ex_worker) = lit ''work''"
  by (simp_all add: ex_worker_def new_worker_def ex_account_def)

theorem backfill_failures_contained_witness:
  "snd (docExists (w_clock_exists (ex_world_msg False)) (w_esExists (ex_world_msg False))
          (IdString (show_int 7)) (resolve_id (ex_msg ''<1@x>'') (ex_world_msg False))) = Inr False \<and>
   snd (indexEmail (w_clock_index (ex_world_msg False)) (w_esIndex (ex_world_msg False))
          (build_doc 7 (lit ''INBOX'') (ex_msg ''<1@x>'') (ex_world_msg False))) =
     Inl (JsError ''index down'') \<and>
   fst (backfill_message 7 (lit ''INBOX'') (ex_msg ''<1@x>'', ex_world_msg False)) =
     [EsExists (lit ''7_PDFAeD4''),
      EsIndex (lit ''7_PDFAeD4'') (build_doc 7 (lit ''INBOX'') (ex_msg ''<1@x>'') (ex_world_msg False)),
      Log (FailedToIndexEmail (lit ''7_PDFAeD4'') (JsError ''index down'')),
      Log (IndexingErrorHistorical (JsError ''index down''))] \<and>
   b_open ex_backfill = None \<and> b_search ex_backfill = Inr (Some [11, 12]) \<and>
   snd (b_fetch ex_backfill) = None \<and>
   upserts (fetchLast30DaysForMailbox ex_backfill 7 (lit ''INBOX'')) =
     [lit ''7_PDFAeD4'', lit ''7_PDJAeD4''] \<and>
   Log (IndexingErrorHistorical (JsError ''index down'')) \<in>
     set (fetchLast30DaysForMailbox ex_backfill 7 (lit ''INBOX'')) \<and>
   snd (fetchLast30Days_try ex_search_fails 7 (lit ''INBOX'')) = Inl (JsError ''search failed'') \<and>
   fetchLast30DaysForMailbox ex_search_fails 7 (lit ''INBOX'') =
     [ImapOpen (lit ''INBOX'') True, ImapSearch,
      Log (ErrorFetchingMailbox (lit ''INBOX'') (JsError ''search failed''))] \<and>
   wc_list ex_world_locked = Inr ex_boxes \<and>
   snd (connect_resolved ex_world_locked ex_worker) =
     [Log (ImapConnected 7 (lit ''work'')), ImapList,
      ImapOpen (lit ''INBOX'') True, ImapSearch, ImapOpen (lit ''INBOX'') False,
      Log (CouldNotSubscribe (lit ''INBOX'') 7 (JsError ''read-only'')),
      ImapOpen (lit ''Sent'') True, ImapSearch, ImapOpen (lit ''Sent'') False]"
proof -
  have h1: "snd (docExists (w_clock_exists (ex_world_msg False)) (w_esExists (ex_world_msg False))
          (IdString (show_int 7)) (resolve_id (ex_msg ''<1@x>'') (ex_world_msg False))) = Inr False"
    by (simp add: ex_not_found_1)
  have h2: "snd (indexEmail (w_clock_index (ex_world_msg False)) (w_esIndex (ex_world_msg False))
          (build_doc 7 (lit ''INBOX'') (ex_msg ''<1@x>'') (ex_world_msg False))) =
     Inl (JsError ''index down'')"
    by (simp add: ex_index_down)
  have first: "fst (backfill_message 7 (lit ''INBOX'') (ex_msg ''<1@x>'', ex_world_msg False)) =
     [EsExists (lit ''7_PDFAeD4''),
      EsIndex (lit ''7_PDFAeD4'') (build_doc 7 (lit ''INBOX'') (ex_msg ''<1@x>'') (ex_world_msg False)),
      Log (FailedToIndexEmail (lit ''7_PDFAeD4'') (JsError ''index down'')),
      Log (IndexingErrorHistorical (JsError ''index down''))]"
    using backfill_failures_contained [where wm = "ex_world_msg False" and msg = "ex_msg ''<1@x>''"
        and accountId = 7 and mailbox = "lit ''INBOX''" and err = "JsError ''index down''"] h1 h2
    by (simp add: ex_not_found_1 ex_index_down)
  have h3: "b_open ex_backfill = None" "b_search ex_backfill = Inr (Some [11, 12])"
    "snd (b_fetch ex_backfill) = None"
    "fst (b_fetch ex_backfill) =
       [(ex_msg ''<1@x>'', ex_world_msg False), (ex_msg ''<2@x>'', ex_world_msg True)]"
    by (simp_all add: ex_backfill_def)
  have whole: "fetchLast30DaysForMailbox ex_backfill 7 (lit ''INBOX'') =
     [ImapOpen (lit ''INBOX'') True, ImapSearch, ImapFetchUids [11, 12]] @
     fst (backfill_message 7 (lit ''INBOX'') (ex_msg ''<1@x>'', ex_world_msg False)) @
     fst (backfill_message 7 (lit ''INBOX'') (ex_msg ''<2@x>'', ex_world_msg True))"
    using backfill_failures_contained [where bw = ex_backfill and uids = "[11, 12]"
        and accountId = 7 and mailbox = "lit ''INBOX''"] h3
    by simp
  have ups: "upserts (fetchLast30DaysForMailbox ex_backfill 7 (lit ''INBOX'')) =
     [lit ''7_PDFAeD4'', lit ''7_PDJAeD4'']"
    by (simp add: whole ex_message_1 ex_message_2)
  have logged: "Log (IndexingErrorHistorical (JsError ''index down'')) \<in>
     set (fetchLast30DaysForMailbox ex_backfill 7 (lit ''INBOX''))"
    by (simp add: whole ex_message_1)
  have h4: "snd (fetchLast30Days_try ex_search_fails 7 (lit ''INBOX'')) = Inl (JsError ''search failed'')"
    by (simp add: ex_search_failed)
  have failed: "fetchLast30DaysForMailbox ex_search_fails 7 (lit ''INBOX'') =
     [ImapOpen (lit ''INBOX'') True, ImapSearch,
      Log (ErrorFetchingMailbox (lit ''INBOX'') (JsError ''search failed''))]"
    using backfill_failures_contained [where bw' = ex_search_fails and accountId = 7
        and mailbox = "lit ''INBOX''" and err' = "JsError ''search failed''"] h4
    by (simp add: ex_search_failed)
  have h5: "wc_list ex_world_locked = Inr ex_boxes"
    by (simp add: ex_world_locked_def)
  have locked: "snd (connect_resolved ex_world_locked ex_worker) =
     [Log (ImapConnected 7 (lit ''work'')), ImapList,
      ImapOpen (lit ''INBOX'') True, ImapSearch, ImapOpen (lit ''INBOX'') False,
      Log (CouldNotSubscribe (lit ''INBOX'') 7 (JsError ''read-only'')),
      ImapOpen (lit ''Sent'') True, ImapSearch, ImapOpen (lit ''Sent'') False]"
    using backfill_failures_contained [where cworld = ex_world_locked and boxes = ex_boxes
        and w = ex_worker] h5
    by (simp add: ex_names ex_worker_account at_mailbox_def ex_nothing_found)
       (simp add: ex_world_locked_def ex_nothing_found)
  show ?thesis
    using h1 h2 first h3(1-3) ups logged h4 failed h5 locked by simp
qed

text \<open>
  C7 as stated has a mailbox that fails skipped entirely. Here the search fails in the
  first mailbox: the failure is logged, and the worker goes on to open that mailbox
  read-write and registers its listener.
\<close>

theorem failed_mailbox_still_subscribed:
  "snd (connect_resolved ex_world_search_fails ex_worker) =
     [Log (ImapConnected 7 (lit ''work'')), ImapList,
      ImapOpen (lit ''INBOX'') True, ImapSearch,
      Log (ErrorFetchingMailbox (lit ''INBOX'') (JsError ''search failed'')),
      ImapOpen (lit ''INBOX'') False,
      ImapOpen (lit ''Sent'') True, ImapSearch, ImapOpen (lit ''Sent'') False] \<and>
   on_exists (client (fst (connect_resolved ex_world_search_fails ex_worker))) =
     [lit ''INBOX'', lit ''Sent'']"
proof -
  have h: "wc_list ex_world_search_fails = Inr ex_boxes"
    by (simp add: ex_world_search_fails_def)
  have acts: "snd (connect_resolved ex_world_search_fails ex_worker) =
     [Log (ImapConnected 7 (lit ''work'')), ImapList,
      ImapOpen (lit ''INBOX'') True, ImapSearch,
      Log (ErrorFetchingMailbox (lit ''INBOX'') (JsError ''search failed'')),
      ImapOpen (lit ''INBOX'') False,
      ImapOpen (lit ''Sent'') True, ImapSearch, ImapOpen (lit ''Sent'') False]"
    by (simp add: connect_resolved_all [OF h] ex_names ex_worker_account at_mailbox_def)
       (simp add: ex_world_search_fails_def ex_nothing_found ex_search_failed_logged)
  have listeners: "on_exists (client (fst (connect_resolved ex_world_search_fails ex_worker))) =
     [lit ''INBOX'', lit ''Sent'']"
    by (simp add: connect_resolved_listeners enumerated_def h ex_names subscribed_def)
       (simp add: ex_world_search_fails_def ex_worker_def new_worker_def)
  show ?thesis using acts listeners by simp
qed

section \<open>The retries and the counter\<close>

lemma backoff_0 [simp]: "backoff 0 = []"
  by (simp add: backoff_def)











































section \<open>Reconnect backoff\<close>





end
